theory Spec2Isabelle
  imports Main
begin

section \<open>Errors and strings of the host language\<close>

text \<open>
  A thrown exception is a value of type \<open>error\<close>: \<open>Error msg\<close> for
  \<^verbatim>\<open>new Error(msg)\<close> and \<open>ArgumentError flag msg\<close> for
  \<^verbatim>\<open>new ArgumentError(flag, msg)\<close>. A function that may throw returns
  \<open>error + 'a\<close>, with \<open>Inl\<close> for the exception.
  Strings are lists of characters, one \<open>char\<close> per code unit; the model is
  about strings whose code units are below 256.
\<close>

datatype error = Error string | ArgumentError string string

fun errorMessage :: "error \<Rightarrow> string" where
  \<comment> \<open>\<^verbatim>\<open>err.message\<close>\<close>
  "errorMessage (Error msg) = msg"
| "errorMessage (ArgumentError flag msg) = msg"

definition charCode :: "char \<Rightarrow> nat" where
  "charCode c = of_char c"

definition charBetween :: "char \<Rightarrow> char \<Rightarrow> char \<Rightarrow> bool" where
  \<comment> \<open>a range \<^verbatim>\<open>lo-hi\<close> of a character class\<close>
  "charBetween lo hi c = (charCode lo \<le> charCode c \<and> charCode c \<le> charCode hi)"

definition startsWith :: "string \<Rightarrow> string \<Rightarrow> bool" where
  "startsWith s p = (take (length p) s = p)"

definition endsWith :: "string \<Rightarrow> string \<Rightarrow> bool" where
  "endsWith s p = (length p \<le> length s \<and> drop (length s - length p) s = p)"

fun join :: "string \<Rightarrow> string list \<Rightarrow> string" where
  "join sep [] = []"
| "join sep [x] = x"
| "join sep (x # y # ys) = x @ sep @ join sep (y # ys)"

text \<open>
  A replacement \<^verbatim>\<open>.replace(/^C+|C+$/g, '')\<close> for a character class \<open>C\<close>, as the
  scan from left to right performs it: \<^verbatim>\<open>^C+\<close> matches at the start only and takes
  the whole leading run; \<^verbatim>\<open>C+$\<close> matches at the first position from which only
  characters of the class follow to the end.
\<close>

fun removeTrailingRun :: "(char \<Rightarrow> bool) \<Rightarrow> string \<Rightarrow> string" where
  "removeTrailingRun C [] = []"
| "removeTrailingRun C (c # cs) =
     (if C c \<and> list_all C cs then [] else c # removeTrailingRun C cs)"

definition removeEdgeRuns :: "(char \<Rightarrow> bool) \<Rightarrow> string \<Rightarrow> string" where
  "removeEdgeRuns C str = removeTrailingRun C (dropWhile C str)"

text \<open>
  \<^verbatim>\<open>str.split(sep)\<close> for a separator that is one character of a class: every
  separator ends a piece, so the result always has a piece (the empty string splits
  into one empty piece).
\<close>

fun splitOn :: "(char \<Rightarrow> bool) \<Rightarrow> string \<Rightarrow> string list" where
  "splitOn C [] = [[]]"
| "splitOn C (c # cs) =
     (if C c then [] # splitOn C cs
      else (case splitOn C cs of
              [] \<Rightarrow> [[c]]
            | piece # pieces \<Rightarrow> (c # piece) # pieces))"

text \<open>
  \<^verbatim>\<open>parseInt(str, 10)\<close>: white space is skipped, a sign is read, and the longest
  run of decimal digits that follows is the number; with no digit the result is
  \<open>NaN\<close>, here \<open>None\<close>. The result is an exact integer: the program's numbers are
  doubles, which are exact up to \<open>2^53\<close>, far beyond every year, month, day, hour and
  minute a date can have.
\<close>

definition isDigit :: "char \<Rightarrow> bool" where
  "isDigit c = charBetween CHR ''0'' CHR ''9'' c"

definition isWhiteSpace :: "char \<Rightarrow> bool" where
  \<comment> \<open>TAB, LF, VT, FF, CR, SP and NBSP: the white space and line terminators below 256\<close>
  "isWhiteSpace c = (charCode c \<in> {9, 10, 11, 12, 13, 32, 160})"

definition digitValue :: "char \<Rightarrow> int" where
  "digitValue c = int (charCode c) - 48"

definition digitsValue :: "string \<Rightarrow> int" where
  "digitsValue ds = foldl (\<lambda>acc c. 10 * acc + digitValue c) 0 ds"

definition parseDigits :: "string \<Rightarrow> int option" where
  "parseDigits str =
     (let ds = takeWhile isDigit str in if ds = [] then None else Some (digitsValue ds))"

definition parseInt :: "string \<Rightarrow> int option" where
  "parseInt str =
     (case dropWhile isWhiteSpace str of
        [] \<Rightarrow> None
      | c # cs \<Rightarrow>
          if c = CHR ''-'' then map_option uminus (parseDigits cs)
          else if c = CHR ''+'' then parseDigits cs
          else parseDigits (c # cs))"

text \<open>
  \<^verbatim>\<open>String(n)\<close> for an integer and \<^verbatim>\<open>padStart\<close>.
\<close>

definition digitChar :: "nat \<Rightarrow> char" where
  "digitChar n = char_of (48 + n)"

function decimal :: "nat \<Rightarrow> string" where
  "decimal n = (if n < 10 then [digitChar n] else decimal (n div 10) @ [digitChar (n mod 10)])"
  by pat_completeness auto
termination
  by (relation "measure id") auto

declare decimal.simps [simp del]

definition intToString :: "int \<Rightarrow> string" where
  "intToString i = (if i < 0 then CHR ''-'' # decimal (nat (- i)) else decimal (nat i))"

definition padStart :: "nat \<Rightarrow> char \<Rightarrow> string \<Rightarrow> string" where
  "padStart n c str = replicate (n - length str) c @ str"

section \<open>The path module of the platform (POSIX)\<close>

text \<open>
  \<open>path.sep\<close> is the slash. \<open>path.extname\<close> and \<open>path.basename\<close> look at the last
  component of a path, trailing separators ignored. The extension runs from the last
  dot of the component to its end; there is none when the component has no dot, when
  its only dot is its first character, or when the component is \<open>..\<close>.
  \<open>path.basename(p, ext)\<close> is the last component without the suffix \<open>ext\<close>; a suffix
  that is the whole component is not removed, except that a path equal to the suffix
  gives the empty string.
\<close>

definition isSep :: "char \<Rightarrow> bool" where
  "isSep c = (c = CHR ''/'')"

definition lastComponent :: "string \<Rightarrow> string" where
  "lastComponent p = rev (takeWhile (\<lambda>c. \<not> isSep c) (dropWhile isSep (rev p)))"

definition path_extname :: "string \<Rightarrow> string" where
  "path_extname p =
     (let c = lastComponent p;
          afterDot = takeWhile (\<lambda>x. x \<noteq> CHR ''.'') (rev c);
          startDot = length c - length afterDot - 1
      in if CHR ''.'' \<notin> set c then []
         else if startDot = 0 then []
         else if c = ''..'' then []
         else drop startDot c)"

definition path_basename :: "string \<Rightarrow> string \<Rightarrow> string" where
  "path_basename p ext =
     (let c = lastComponent p
      in if ext \<noteq> [] \<and> ext = p then []
         else if ext \<noteq> [] \<and> length ext < length c \<and> endsWith c ext
              then take (length c - length ext) c
         else c)"

text \<open>
  \<open>path.normalize\<close>, \<open>path.join\<close>, \<open>path.resolve\<close> and \<open>path.relative\<close>. The
  platform's \<open>normalizeString\<close> walks the segments of a path from left to right and
  keeps the segments of the result: an empty segment and \<open>.\<close> are dropped, \<open>..\<close>
  removes the segment before it, if there is one that is not \<open>..\<close> itself, and is
  kept otherwise only where the path may rise above its start (a relative path).
  \<open>path.join\<close> joins its non-empty arguments with the separator and normalises.
  \<open>path.resolve\<close> reads a relative path from the working directory \<open>cwd\<close>, which
  is \<^verbatim>\<open>process.cwd()\<close>, an absolute path. \<open>path.relative\<close> resolves both paths,
  leaves out the segments they share at their start, and rises by \<open>..\<close> for every
  segment that is left of \<open>from\<close>.
\<close>

definition segments :: "string \<Rightarrow> string list" where
  "segments p = splitOn isSep p"

definition normalizeStep :: "bool \<Rightarrow> string list \<Rightarrow> string \<Rightarrow> string list" where
  "normalizeStep allowAboveRoot res seg =
     (if seg = [] \<or> seg = ''.'' then res
      else if seg = ''..'' then
        (if res \<noteq> [] \<and> last res \<noteq> ''..'' then butlast res
         else if allowAboveRoot then res @ [''..'']
         else res)
      else res @ [seg])"

definition normalizedSegments :: "string \<Rightarrow> bool \<Rightarrow> string list" where
  "normalizedSegments p allowAboveRoot = foldl (normalizeStep allowAboveRoot) [] (segments p)"

definition normalizeString :: "string \<Rightarrow> bool \<Rightarrow> string" where
  "normalizeString p allowAboveRoot = join ''/'' (normalizedSegments p allowAboveRoot)"

definition isAbsolute :: "string \<Rightarrow> bool" where
  "isAbsolute p = (p \<noteq> [] \<and> hd p = CHR ''/'')"

definition path_normalize :: "string \<Rightarrow> string" where
  "path_normalize p =
     (if p = [] then ''.''
      else (let trailingSeparator = (last p = CHR ''/'');
                res = normalizeString p (\<not> isAbsolute p)
            in if res = [] then
                 (if isAbsolute p then ''/'' else if trailingSeparator then ''./'' else ''.'')
               else (if isAbsolute p then ''/'' else [])
                    @ res @ (if trailingSeparator then ''/'' else [])))"

definition path_join :: "string list \<Rightarrow> string" where
  "path_join args =
     (let given = filter (\<lambda>arg. arg \<noteq> []) args
      in if given = [] then ''.'' else path_normalize (join ''/'' given))"

definition resolvedSegments :: "string \<Rightarrow> string \<Rightarrow> string list" where
  \<comment> \<open>the segments of \<^verbatim>\<open>path.resolve(p)\<close>\<close>
  "resolvedSegments cwd p =
     normalizedSegments
       (if isAbsolute p then p @ ''/'' else if p = [] then cwd @ ''/'' else cwd @ ''/'' @ p @ ''/'')
       False"

definition path_resolve :: "string \<Rightarrow> string \<Rightarrow> string" where
  "path_resolve cwd p = ''/'' @ join ''/'' (resolvedSegments cwd p)"

fun commonPrefixLength :: "'a list \<Rightarrow> 'a list \<Rightarrow> nat" where
  "commonPrefixLength (x # xs) (y # ys) = (if x = y then Suc (commonPrefixLength xs ys) else 0)"
| "commonPrefixLength _ _ = 0"

definition path_relative :: "string \<Rightarrow> string \<Rightarrow> string \<Rightarrow> string" where
  "path_relative cwd from to =
     (let fromSegments = resolvedSegments cwd from;
          toSegments = resolvedSegments cwd to;
          shared = commonPrefixLength fromSegments toSegments
      in join ''/'' (replicate (length fromSegments - shared) ''..'' @ drop shared toSegments))"

section \<open>Dates of the host language\<close>

text \<open>
  A \<^verbatim>\<open>Date\<close> object holds a time value, the milliseconds since the epoch, or
  \<open>NaN\<close> (an invalid date).
\<close>

datatype jsdate = TimeValue int | InvalidDate

text \<open>
  The time value of a date and its calendar fields, as the language standard defines
  them: days are counted from the epoch, \<open>DayFromYear y\<close> is the day number of the
  first day of year \<open>y\<close>, and \<open>YearFromTime t\<close> is the largest year whose first day
  is not after \<open>t\<close>. The year is computed from an estimate that is off by one year at
  most; \<open>YearFromDay_bounds\<close> below proves that the result is that largest year.
\<close>

definition msPerDay :: int where "msPerDay = 86400000"
definition msPerHour :: int where "msPerHour = 3600000"
definition msPerMinute :: int where "msPerMinute = 60000"

definition Day :: "int \<Rightarrow> int" where
  "Day t = t div msPerDay"

definition TimeWithinDay :: "int \<Rightarrow> int" where
  "TimeWithinDay t = t mod msPerDay"

definition DaysInYear :: "int \<Rightarrow> int" where
  "DaysInYear y =
     (if y mod 4 \<noteq> 0 then 365 else if y mod 100 \<noteq> 0 then 366
      else if y mod 400 \<noteq> 0 then 365 else 366)"

definition DayFromYear :: "int \<Rightarrow> int" where
  "DayFromYear y =
     365 * (y - 1970) + (y - 1969) div 4 - (y - 1901) div 100 + (y - 1601) div 400"

definition YearFromDay :: "int \<Rightarrow> int" where
  "YearFromDay d =
     (let y = 1970 + (400 * d) div 146097
      in if d < DayFromYear y then y - 1
         else if DayFromYear (y + 1) \<le> d then y + 1
         else y)"

definition YearFromTime :: "int \<Rightarrow> int" where
  "YearFromTime t = YearFromDay (Day t)"

definition InLeapYear :: "int \<Rightarrow> int" where
  "InLeapYear t = (if DaysInYear (YearFromTime t) = 365 then 0 else 1)"

definition DayWithinYear :: "int \<Rightarrow> int" where
  "DayWithinYear t = Day t - DayFromYear (YearFromTime t)"

definition MonthFromTime :: "int \<Rightarrow> int" where
  "MonthFromTime t =
     (let d = DayWithinYear t; leap = InLeapYear t
      in if d < 31 then 0
         else if d < 59 + leap then 1
         else if d < 90 + leap then 2
         else if d < 120 + leap then 3
         else if d < 151 + leap then 4
         else if d < 181 + leap then 5
         else if d < 212 + leap then 6
         else if d < 243 + leap then 7
         else if d < 273 + leap then 8
         else if d < 304 + leap then 9
         else if d < 334 + leap then 10
         else 11)"

definition DateFromTime :: "int \<Rightarrow> int" where
  "DateFromTime t =
     (let d = DayWithinYear t; leap = InLeapYear t; m = MonthFromTime t
      in if m = 0 then d + 1
         else if m = 1 then d - 30
         else if m = 2 then d - 58 - leap
         else if m = 3 then d - 89 - leap
         else if m = 4 then d - 119 - leap
         else if m = 5 then d - 150 - leap
         else if m = 6 then d - 180 - leap
         else if m = 7 then d - 211 - leap
         else if m = 8 then d - 242 - leap
         else if m = 9 then d - 272 - leap
         else if m = 10 then d - 303 - leap
         else d - 333 - leap)"

definition HourFromTime :: "int \<Rightarrow> int" where
  "HourFromTime t = (t div msPerHour) mod 24"

definition MinFromTime :: "int \<Rightarrow> int" where
  "MinFromTime t = (t div msPerMinute) mod 60"

text \<open>
  \<open>MakeDay\<close> finds the first day of the month in the year and adds the date; the
  first day of month \<open>mn\<close> is the table of \<open>MonthFromTime\<close> read the other way.
\<close>

definition firstDayOfMonth :: "int \<Rightarrow> int \<Rightarrow> int" where
  "firstDayOfMonth leap mn =
     (if mn = 0 then 0 else if mn = 1 then 31
      else [59, 90, 120, 151, 181, 212, 243, 273, 304, 334] ! nat (mn - 2) + leap)"

definition MakeDay :: "int \<Rightarrow> int \<Rightarrow> int \<Rightarrow> int" where
  "MakeDay year month date =
     (let ym = year + month div 12; mn = month mod 12
      in DayFromYear ym + firstDayOfMonth (if DaysInYear ym = 365 then 0 else 1) mn
         + date - 1)"

definition MakeTime :: "int \<Rightarrow> int \<Rightarrow> int \<Rightarrow> int \<Rightarrow> int" where
  "MakeTime hour minute sec ms = hour * msPerHour + minute * msPerMinute + sec * 1000 + ms"

definition MakeDate :: "int \<Rightarrow> int \<Rightarrow> int" where
  "MakeDate day time = day * msPerDay + time"

definition MakeFullYear :: "int \<Rightarrow> int" where
  "MakeFullYear year = (if 0 \<le> year \<and> year \<le> 99 then 1900 + year else year)"

definition TimeClip :: "int \<Rightarrow> jsdate" where
  "TimeClip t = (if \<bar>t\<bar> > 8640000000000000 then InvalidDate else TimeValue t)"

definition Date_UTC :: "int \<Rightarrow> int \<Rightarrow> int \<Rightarrow> int \<Rightarrow> int \<Rightarrow> jsdate" where
  \<comment> \<open>\<^verbatim>\<open>new Date(Date.UTC(y, mo, d, h, mi))\<close>\<close>
  "Date_UTC year month date hours minutes =
     TimeClip (MakeDate (MakeDay (MakeFullYear year) month date) (MakeTime hours minutes 0 0))"

text \<open>The getters of a date; \<open>None\<close> is \<open>NaN\<close>.\<close>

fun getUTCFullYear :: "jsdate \<Rightarrow> int option" where
  "getUTCFullYear (TimeValue t) = Some (YearFromTime t)"
| "getUTCFullYear InvalidDate = None"

fun getUTCMonth :: "jsdate \<Rightarrow> int option" where
  "getUTCMonth (TimeValue t) = Some (MonthFromTime t)"
| "getUTCMonth InvalidDate = None"

fun getUTCDate :: "jsdate \<Rightarrow> int option" where
  "getUTCDate (TimeValue t) = Some (DateFromTime t)"
| "getUTCDate InvalidDate = None"

fun getUTCHours :: "jsdate \<Rightarrow> int option" where
  "getUTCHours (TimeValue t) = Some (HourFromTime t)"
| "getUTCHours InvalidDate = None"

fun getUTCMinutes :: "jsdate \<Rightarrow> int option" where
  "getUTCMinutes (TimeValue t) = Some (MinFromTime t)"
| "getUTCMinutes InvalidDate = None"

section \<open>structured.ts: getFilePattern\<close>

text \<open>
  The \<^verbatim>\<open>for (const ext of extensions)\<close> loop of \<open>getFilePattern\<close>:
  it throws at the first extension that starts with a dot.
\<close>

fun validateExtensionFormat :: "string list \<Rightarrow> error + unit" where
  "validateExtensionFormat [] = Inr ()"
| "validateExtensionFormat (ext # rest) =
     (if startsWith ext ''.''
      then Inl (Error (''Invalid extension format: '' @ [CHR 0x22] @ ext @ [CHR 0x22]
              @ ''. Extensions should not start with a dot ('' @ [CHR 0x27] @ ''.''
              @ [CHR 0x27] @ '').''))
      else validateExtensionFormat rest)"

definition getFilePattern :: "string list \<Rightarrow> string list \<Rightarrow> error + string" where
  "getFilePattern features extensions =
     (case validateExtensionFormat extensions of
        Inl e \<Rightarrow> Inl e
      | Inr _ \<Rightarrow>
          Inr (if ''extensions'' \<in> set features \<and> length extensions > 0
               then (case extensions of
                       [ext] \<Rightarrow> ''**/*.'' @ ext
                     | _ \<Rightarrow> ''**/*.{'' @ join '','' extensions @ ''}'')
               else ''**/*.*''))"

section \<open>The calendar utility (util/dates.ts)\<close>

text \<open>
  \<open>Dates.create({ timezone })\<close> returns the \<open>Utility\<close> of util/dates.ts. Every member
  is a thin wrapper of the dayjs library bound to the time zone, so the utility is a
  record of its members and the code that uses it is modelled for any such record:
  \<open>dates_now\<close> is what \<open>now()\<close> reads from the clock, \<open>dates_parse\<close> and
  \<open>dates_date\<close> throw on an invalid date.
\<close>

record Utility =
  dates_now :: jsdate
  dates_date :: "jsdate \<Rightarrow> error + jsdate"
  dates_parse :: "jsdate \<Rightarrow> string \<Rightarrow> error + jsdate"
  dates_format :: "jsdate \<Rightarrow> string \<Rightarrow> string"
  dates_subDays :: "jsdate \<Rightarrow> int \<Rightarrow> jsdate"
  dates_isBefore :: "jsdate \<Rightarrow> jsdate \<Rightarrow> bool"

text \<open>
  dayjs is a library, not code of the repository. A dayjs object holds the calendar
  fields it writes (\<open>$y\<close>, \<open>$M\<close> counted from 0, \<open>$D\<close>, \<open>$H\<close>, \<open>$m\<close>), and its
  \<open>format\<close> is modelled for the tokens the repository's format strings use (\<open>YYYY\<close>:
  the year padded to four characters; \<open>M\<close> and \<open>D\<close>: month and day of the month as
  they are; \<open>HH\<close> and \<open>mm\<close>: hour and minute padded to two); any other character of
  a format stands for itself.
\<close>

record Dayjs =
  dj_y :: int
  dj_M :: int
  dj_D :: int
  dj_H :: int
  dj_m :: int

function dayjs_format :: "Dayjs \<Rightarrow> string \<Rightarrow> string" where
  "dayjs_format obj fmt =
     (if fmt = [] then []
      else if startsWith fmt ''YYYY''
        then padStart 4 CHR ''0'' (intToString (dj_y obj)) @ dayjs_format obj (drop 4 fmt)
      else if startsWith fmt ''HH''
        then padStart 2 CHR ''0'' (intToString (dj_H obj)) @ dayjs_format obj (drop 2 fmt)
      else if startsWith fmt ''mm''
        then padStart 2 CHR ''0'' (intToString (dj_m obj)) @ dayjs_format obj (drop 2 fmt)
      else if hd fmt = CHR ''M''
        then intToString (dj_M obj + 1) @ dayjs_format obj (tl fmt)
      else if hd fmt = CHR ''D''
        then intToString (dj_D obj) @ dayjs_format obj (tl fmt)
      else hd fmt # dayjs_format obj (tl fmt))"
  by pat_completeness auto
termination
  by (relation "measure (\<lambda>(obj, fmt). length fmt)") auto

declare dayjs_format.simps [simp del]

text \<open>
  \<open>dayjs.tz(date, timezone)\<close> for a \<^verbatim>\<open>Date\<close> and the time zone \<open>UTC\<close>, on a host whose
  own zone is \<open>UTC\<close>. The library writes the date in the zone with
  \<^verbatim>\<open>toLocaleString('en-US', { timeZone })\<close>, as month, day, year and clock time, and
  reads that text as a date again. The fields of the object are those of the date in
  the zone, but for the year: a year below 100 is written with one or two digits, and
  the reading takes such a year for one of the years 1950 to 2049. The instant of the
  object is the one of the date, which \<open>toDate()\<close> returns. The model is for the
  dates from the year 1 on.
\<close>

definition legacyYear :: "int \<Rightarrow> int" where
  "legacyYear y =
     (if 1 \<le> y \<and> y \<le> 49 then 2000 + y else if 50 \<le> y \<and> y \<le> 99 then 1900 + y else y)"

definition dayjs_tz_UTC :: "int \<Rightarrow> Dayjs" where
  "dayjs_tz_UTC t =
     \<lparr> dj_y = legacyYear (YearFromTime t), dj_M = MonthFromTime t, dj_D = DateFromTime t,
       dj_H = HourFromTime t, dj_m = MinFromTime t \<rparr>"

text \<open>
  The utility for the time zone \<open>UTC\<close>, with the clock reading \<open>clock\<close>. In \<open>UTC\<close>
  a day is \<open>msPerDay\<close> long, and a \<^verbatim>\<open>Date\<close> is parsed to itself.
\<close>

definition throwIfInvalid :: "string \<Rightarrow> jsdate \<Rightarrow> error + jsdate" where
  "throwIfInvalid msg d = (case d of InvalidDate \<Rightarrow> Inl (Error msg) | TimeValue t \<Rightarrow> Inr d)"

definition Dates_create_UTC :: "int \<Rightarrow> Utility" where
  "Dates_create_UTC clock =
     \<lparr> dates_now = TimeValue clock,
       dates_date = throwIfInvalid ''Invalid date: Invalid Date'',
       dates_parse = (\<lambda>d fmt.
          throwIfInvalid (''Invalid date: Invalid Date, expected format: '' @ fmt) d),
       dates_format = (\<lambda>d fmt.
          case d of InvalidDate \<Rightarrow> ''Invalid Date''
          | TimeValue t \<Rightarrow> dayjs_format (dayjs_tz_UTC t) fmt),
       dates_subDays = (\<lambda>d days.
          case d of InvalidDate \<Rightarrow> InvalidDate | TimeValue t \<Rightarrow> TimeClip (t - days * msPerDay)),
       dates_isBefore = (\<lambda>d other.
          case (d, other) of (TimeValue a, TimeValue b) \<Rightarrow> a < b | _ \<Rightarrow> False) \<rparr>"

text \<open>
  \<open>validTimezones\<close> returns the table of the names of the time zones.
\<close>

definition TIMEZONE_NAMES :: "string list" where
  "TIMEZONE_NAMES = [
    ''Africa/Abidjan'', ''Africa/Accra'', ''Africa/Addis_Ababa'', ''Africa/Algiers'',
    ''Africa/Asmara'', ''Africa/Asmera'', ''Africa/Bamako'', ''Africa/Bangui'',
    ''Africa/Banjul'', ''Africa/Bissau'', ''Africa/Blantyre'', ''Africa/Brazzaville'',
    ''Africa/Bujumbura'', ''Africa/Cairo'', ''Africa/Casablanca'', ''Africa/Ceuta'',
    ''Africa/Conakry'', ''Africa/Dakar'', ''Africa/Dar_es_Salaam'', ''Africa/Djibouti'',
    ''Africa/Douala'', ''Africa/El_Aaiun'', ''Africa/Freetown'', ''Africa/Gaborone'',
    ''Africa/Harare'', ''Africa/Johannesburg'', ''Africa/Juba'', ''Africa/Kampala'',
    ''Africa/Khartoum'', ''Africa/Kigali'', ''Africa/Kinshasa'', ''Africa/Lagos'',
    ''Africa/Libreville'', ''Africa/Lome'', ''Africa/Luanda'', ''Africa/Lubumbashi'',
    ''Africa/Lusaka'', ''Africa/Malabo'', ''Africa/Maputo'', ''Africa/Maseru'',
    ''Africa/Mbabane'', ''Africa/Mogadishu'', ''Africa/Monrovia'', ''Africa/Nairobi'',
    ''Africa/Ndjamena'', ''Africa/Niamey'', ''Africa/Nouakchott'', ''Africa/Ouagadougou'',
    ''Africa/Porto-Novo'', ''Africa/Sao_Tome'', ''Africa/Timbuktu'', ''Africa/Tripoli'',
    ''Africa/Tunis'', ''Africa/Windhoek'', ''America/Adak'', ''America/Anchorage'',
    ''America/Anguilla'', ''America/Antigua'', ''America/Araguaina'',
    ''America/Argentina/Buenos_Aires'', ''America/Argentina/Catamarca'',
    ''America/Argentina/ComodRivadavia'', ''America/Argentina/Cordoba'',
    ''America/Argentina/Jujuy'', ''America/Argentina/La_Rioja'', ''America/Argentina/Mendoza'',
    ''America/Argentina/Rio_Gallegos'', ''America/Argentina/Salta'',
    ''America/Argentina/San_Juan'', ''America/Argentina/San_Luis'',
    ''America/Argentina/Tucuman'', ''America/Argentina/Ushuaia'', ''America/Aruba'',
    ''America/Asuncion'', ''America/Atikokan'', ''America/Atka'', ''America/Bahia'',
    ''America/Bahia_Banderas'', ''America/Barbados'', ''America/Belem'', ''America/Belize'',
    ''America/Blanc-Sablon'', ''America/Boa_Vista'', ''America/Bogota'', ''America/Boise'',
    ''America/Buenos_Aires'', ''America/Cambridge_Bay'', ''America/Campo_Grande'',
    ''America/Cancun'', ''America/Caracas'', ''America/Catamarca'', ''America/Cayenne'',
    ''America/Cayman'', ''America/Chicago'', ''America/Chihuahua'', ''America/Coral_Harbour'',
    ''America/Cordoba'', ''America/Costa_Rica'', ''America/Creston'', ''America/Cuiaba'',
    ''America/Curacao'', ''America/Danmarkshavn'', ''America/Dawson'',
    ''America/Dawson_Creek'', ''America/Denver'', ''America/Detroit'', ''America/Dominica'',
    ''America/Edmonton'', ''America/Eirunepe'', ''America/El_Salvador'', ''America/Ensenada'',
    ''America/Fort_Nelson'', ''America/Fort_Wayne'', ''America/Fortaleza'',
    ''America/Glace_Bay'', ''America/Godthab'', ''America/Goose_Bay'', ''America/Grand_Turk'',
    ''America/Grenada'', ''America/Guadeloupe'', ''America/Guatemala'', ''America/Guayaquil'',
    ''America/Guyana'', ''America/Halifax'', ''America/Havana'', ''America/Hermosillo'',
    ''America/Indiana/Indianapolis'', ''America/Indiana/Knox'', ''America/Indiana/Marengo'',
    ''America/Indiana/Petersburg'', ''America/Indiana/Tell_City'', ''America/Indiana/Vevay'',
    ''America/Indiana/Vincennes'', ''America/Indiana/Winamac'', ''America/Indianapolis'',
    ''America/Inuvik'', ''America/Iqaluit'', ''America/Jamaica'', ''America/Jujuy'',
    ''America/Juneau'', ''America/Kentucky/Louisville'', ''America/Kentucky/Monticello'',
    ''America/Knox_IN'', ''America/Kralendijk'', ''America/La_Paz'', ''America/Lima'',
    ''America/Los_Angeles'', ''America/Louisville'', ''America/Lower_Princes'',
    ''America/Maceio'', ''America/Managua'', ''America/Manaus'', ''America/Marigot'',
    ''America/Martinique'', ''America/Matamoros'', ''America/Mazatlan'', ''America/Mendoza'',
    ''America/Menominee'', ''America/Merida'', ''America/Metlakatla'', ''America/Mexico_City'',
    ''America/Miquelon'', ''America/Moncton'', ''America/Monterrey'', ''America/Montevideo'',
    ''America/Montreal'', ''America/Montserrat'', ''America/Nassau'', ''America/New_York'',
    ''America/Nipigon'', ''America/Nome'', ''America/Noronha'',
    ''America/North_Dakota/Beulah'', ''America/North_Dakota/Center'',
    ''America/North_Dakota/New_Salem'', ''America/Ojinaga'', ''America/Panama'',
    ''America/Pangnirtung'', ''America/Paramaribo'', ''America/Phoenix'',
    ''America/Port-au-Prince'', ''America/Port_of_Spain'', ''America/Porto_Acre'',
    ''America/Porto_Velho'', ''America/Puerto_Rico'', ''America/Punta_Arenas'',
    ''America/Rainy_River'', ''America/Rankin_Inlet'', ''America/Recife'', ''America/Regina'',
    ''America/Resolute'', ''America/Rio_Branco'', ''America/Rosario'',
    ''America/Santa_Isabel'', ''America/Santarem'', ''America/Santiago'',
    ''America/Santo_Domingo'', ''America/Sao_Paulo'', ''America/Scoresbysund'',
    ''America/Shiprock'', ''America/Sitka'', ''America/St_Barthelemy'', ''America/St_Johns'',
    ''America/St_Kitts'', ''America/St_Lucia'', ''America/St_Thomas'', ''America/St_Vincent'',
    ''America/Swift_Current'', ''America/Tegucigalpa'', ''America/Thule'',
    ''America/Thunder_Bay'', ''America/Tijuana'', ''America/Toronto'', ''America/Tortola'',
    ''America/Vancouver'', ''America/Virgin'', ''America/Whitehorse'', ''America/Winnipeg'',
    ''America/Yakutat'', ''America/Yellowknife'', ''Antarctica/Casey'', ''Antarctica/Davis'',
    ''Antarctica/DumontDUrville'', ''Antarctica/Macquarie'', ''Antarctica/Mawson'',
    ''Antarctica/McMurdo'', ''Antarctica/Palmer'', ''Antarctica/Rothera'',
    ''Antarctica/South_Pole'', ''Antarctica/Syowa'', ''Antarctica/Troll'',
    ''Antarctica/Vostok'', ''Arctic/Longyearbyen'', ''Asia/Aden'', ''Asia/Almaty'',
    ''Asia/Amman'', ''Asia/Anadyr'', ''Asia/Aqtau'', ''Asia/Aqtobe'', ''Asia/Ashgabat'',
    ''Asia/Ashkhabad'', ''Asia/Atyrau'', ''Asia/Baghdad'', ''Asia/Bahrain'', ''Asia/Baku'',
    ''Asia/Bangkok'', ''Asia/Barnaul'', ''Asia/Beirut'', ''Asia/Bishkek'', ''Asia/Brunei'',
    ''Asia/Calcutta'', ''Asia/Chita'', ''Asia/Choibalsan'', ''Asia/Chongqing'',
    ''Asia/Chungking'', ''Asia/Colombo'', ''Asia/Dacca'', ''Asia/Damascus'', ''Asia/Dhaka'',
    ''Asia/Dili'', ''Asia/Dubai'', ''Asia/Dushanbe'', ''Asia/Famagusta'', ''Asia/Gaza'',
    ''Asia/Harbin'', ''Asia/Hebron'', ''Asia/Ho_Chi_Minh'', ''Asia/Hong_Kong'', ''Asia/Hovd'',
    ''Asia/Irkutsk'', ''Asia/Istanbul'', ''Asia/Jakarta'', ''Asia/Jayapura'',
    ''Asia/Jerusalem'', ''Asia/Kabul'', ''Asia/Kamchatka'', ''Asia/Karachi'', ''Asia/Kashgar'',
    ''Asia/Kathmandu'', ''Asia/Katmandu'', ''Asia/Khandyga'', ''Asia/Kolkata'',
    ''Asia/Krasnoyarsk'', ''Asia/Kuala_Lumpur'', ''Asia/Kuching'', ''Asia/Kuwait'',
    ''Asia/Macao'', ''Asia/Macau'', ''Asia/Magadan'', ''Asia/Makassar'', ''Asia/Manila'',
    ''Asia/Muscat'', ''Asia/Nicosia'', ''Asia/Novokuznetsk'', ''Asia/Novosibirsk'',
    ''Asia/Omsk'', ''Asia/Oral'', ''Asia/Phnom_Penh'', ''Asia/Pontianak'', ''Asia/Pyongyang'',
    ''Asia/Qatar'', ''Asia/Qyzylorda'', ''Asia/Rangoon'', ''Asia/Riyadh'', ''Asia/Saigon'',
    ''Asia/Sakhalin'', ''Asia/Samarkand'', ''Asia/Seoul'', ''Asia/Shanghai'',
    ''Asia/Singapore'', ''Asia/Srednekolymsk'', ''Asia/Taipei'', ''Asia/Tashkent'',
    ''Asia/Tbilisi'', ''Asia/Tehran'', ''Asia/Tel_Aviv'', ''Asia/Thimbu'', ''Asia/Thimphu'',
    ''Asia/Tokyo'', ''Asia/Tomsk'', ''Asia/Ujung_Pandang'', ''Asia/Ulaanbaatar'',
    ''Asia/Ulan_Bator'', ''Asia/Urumqi'', ''Asia/Ust-Nera'', ''Asia/Vientiane'',
    ''Asia/Vladivostok'', ''Asia/Yakutsk'', ''Asia/Yangon'', ''Asia/Yekaterinburg'',
    ''Asia/Yerevan'', ''Atlantic/Azores'', ''Atlantic/Bermuda'', ''Atlantic/Canary'',
    ''Atlantic/Cape_Verde'', ''Atlantic/Faeroe'', ''Atlantic/Faroe'', ''Atlantic/Jan_Mayen'',
    ''Atlantic/Madeira'', ''Atlantic/Reykjavik'', ''Atlantic/South_Georgia'',
    ''Atlantic/St_Helena'', ''Atlantic/Stanley'', ''Australia/ACT'', ''Australia/Adelaide'',
    ''Australia/Brisbane'', ''Australia/Broken_Hill'', ''Australia/Canberra'',
    ''Australia/Currie'', ''Australia/Darwin'', ''Australia/Eucla'', ''Australia/Hobart'',
    ''Australia/LHI'', ''Australia/Lindeman'', ''Australia/Lord_Howe'',
    ''Australia/Melbourne'', ''Australia/NSW'', ''Australia/North'', ''Australia/Perth'',
    ''Australia/Queensland'', ''Australia/South'', ''Australia/Sydney'',
    ''Australia/Tasmania'', ''Australia/Victoria'', ''Australia/West'',
    ''Australia/Yancowinna'', ''Brazil/Acre'', ''Brazil/DeNoronha'', ''Brazil/East'',
    ''Brazil/West'', ''CET'', ''CST6CDT'', ''Canada/Atlantic'', ''Canada/Central'',
    ''Canada/Eastern'', ''Canada/Mountain'', ''Canada/Newfoundland'', ''Canada/Pacific'',
    ''Canada/Saskatchewan'', ''Canada/Yukon'', ''Chile/Continental'', ''Chile/EasterIsland'',
    ''Cuba'', ''EET'', ''EST'', ''EST5EDT'', ''Egypt'', ''Eire'', ''Etc/GMT'', ''Etc/GMT+0'',
    ''Etc/GMT+1'', ''Etc/GMT+10'', ''Etc/GMT+11'', ''Etc/GMT+12'', ''Etc/GMT+2'',
    ''Etc/GMT+3'', ''Etc/GMT+4'', ''Etc/GMT+5'', ''Etc/GMT+6'', ''Etc/GMT+7'', ''Etc/GMT+8'',
    ''Etc/GMT+9'', ''Etc/GMT-0'', ''Etc/GMT-1'', ''Etc/GMT-10'', ''Etc/GMT-11'',
    ''Etc/GMT-12'', ''Etc/GMT-13'', ''Etc/GMT-14'', ''Etc/GMT-2'', ''Etc/GMT-3'',
    ''Etc/GMT-4'', ''Etc/GMT-5'', ''Etc/GMT-6'', ''Etc/GMT-7'', ''Etc/GMT-8'', ''Etc/GMT-9'',
    ''Etc/GMT0'', ''Etc/Greenwich'', ''Etc/UCT'', ''Etc/UTC'', ''Etc/Universal'', ''Etc/Zulu'',
    ''Europe/Amsterdam'', ''Europe/Andorra'', ''Europe/Astrakhan'', ''Europe/Athens'',
    ''Europe/Belfast'', ''Europe/Belgrade'', ''Europe/Berlin'', ''Europe/Bratislava'',
    ''Europe/Brussels'', ''Europe/Bucharest'', ''Europe/Budapest'', ''Europe/Busingen'',
    ''Europe/Chisinau'', ''Europe/Copenhagen'', ''Europe/Dublin'', ''Europe/Gibraltar'',
    ''Europe/Guernsey'', ''Europe/Helsinki'', ''Europe/Isle_of_Man'', ''Europe/Istanbul'',
    ''Europe/Jersey'', ''Europe/Kaliningrad'', ''Europe/Kiev'', ''Europe/Kirov'',
    ''Europe/Lisbon'', ''Europe/Ljubljana'', ''Europe/London'', ''Europe/Luxembourg'',
    ''Europe/Madrid'', ''Europe/Malta'', ''Europe/Mariehamn'', ''Europe/Minsk'',
    ''Europe/Monaco'', ''Europe/Moscow'', ''Europe/Nicosia'', ''Europe/Oslo'',
    ''Europe/Paris'', ''Europe/Podgorica'', ''Europe/Prague'', ''Europe/Riga'',
    ''Europe/Rome'', ''Europe/Samara'', ''Europe/San_Marino'', ''Europe/Sarajevo'',
    ''Europe/Saratov'', ''Europe/Simferopol'', ''Europe/Skopje'', ''Europe/Sofia'',
    ''Europe/Stockholm'', ''Europe/Tallinn'', ''Europe/Tirane'', ''Europe/Tiraspol'',
    ''Europe/Ulyanovsk'', ''Europe/Uzhgorod'', ''Europe/Vaduz'', ''Europe/Vatican'',
    ''Europe/Vienna'', ''Europe/Vilnius'', ''Europe/Volgograd'', ''Europe/Warsaw'',
    ''Europe/Zagreb'', ''Europe/Zaporozhye'', ''Europe/Zurich'', ''GB'', ''GB-Eire'', ''GMT'',
    ''GMT+0'', ''GMT-0'', ''GMT0'', ''Greenwich'', ''HST'', ''Hongkong'', ''Iceland'',
    ''Indian/Antananarivo'', ''Indian/Chagos'', ''Indian/Christmas'', ''Indian/Cocos'',
    ''Indian/Comoro'', ''Indian/Kerguelen'', ''Indian/Mahe'', ''Indian/Maldives'',
    ''Indian/Mauritius'', ''Indian/Mayotte'', ''Indian/Reunion'', ''Iran'', ''Israel'',
    ''Jamaica'', ''Japan'', ''Kwajalein'', ''Libya'', ''MET'', ''MST'', ''MST7MDT'',
    ''Mexico/BajaNorte'', ''Mexico/BajaSur'', ''Mexico/General'', ''NZ'', ''NZ-CHAT'',
    ''Navajo'', ''PRC'', ''PST8PDT'', ''Pacific/Apia'', ''Pacific/Auckland'',
    ''Pacific/Bougainville'', ''Pacific/Chatham'', ''Pacific/Chuuk'', ''Pacific/Easter'',
    ''Pacific/Efate'', ''Pacific/Enderbury'', ''Pacific/Fakaofo'', ''Pacific/Fiji'',
    ''Pacific/Funafuti'', ''Pacific/Galapagos'', ''Pacific/Gambier'', ''Pacific/Guadalcanal'',
    ''Pacific/Guam'', ''Pacific/Honolulu'', ''Pacific/Johnston'', ''Pacific/Kiritimati'',
    ''Pacific/Kosrae'', ''Pacific/Kwajalein'', ''Pacific/Majuro'', ''Pacific/Marquesas'',
    ''Pacific/Midway'', ''Pacific/Nauru'', ''Pacific/Niue'', ''Pacific/Norfolk'',
    ''Pacific/Noumea'', ''Pacific/Pago_Pago'', ''Pacific/Palau'', ''Pacific/Pitcairn'',
    ''Pacific/Pohnpei'', ''Pacific/Ponape'', ''Pacific/Port_Moresby'', ''Pacific/Rarotonga'',
    ''Pacific/Saipan'', ''Pacific/Samoa'', ''Pacific/Tahiti'', ''Pacific/Tarawa'',
    ''Pacific/Tongatapu'', ''Pacific/Truk'', ''Pacific/Wake'', ''Pacific/Wallis'',
    ''Pacific/Yap'', ''Poland'', ''Portugal'', ''ROC'', ''ROK'', ''Singapore'', ''Turkey'',
    ''UCT'', ''US/Alaska'', ''US/Aleutian'', ''US/Arizona'', ''US/Central'',
    ''US/East-Indiana'', ''US/Eastern'', ''US/Hawaii'', ''US/Indiana-Starke'', ''US/Michigan'',
    ''US/Mountain'', ''US/Pacific'', ''US/Pacific-New'', ''US/Samoa'', ''UTC'', ''Universal'',
    ''W-SU'', ''WET'', ''Zulu'']"

definition validTimezones :: "string list" where
  "validTimezones = TIMEZONE_NAMES"

section \<open>Constants (constants.ts)\<close>

text \<open>
  Modelled from the spec: constants.ts is not among the sources. The date formats are
  the ones section 4.1 of the specification gives for the encoder (\<open>YYYY-M-D\<close> for
  \<open>none\<close>, \<open>M-D\<close> for \<open>year\<close>, \<open>D\<close> for \<open>month\<close>), and the ones the tests of
  output.ts name for each constant.
\<close>

definition DATE_FORMAT_YEAR :: string where "DATE_FORMAT_YEAR = ''YYYY''"
definition DATE_FORMAT_MONTH :: string where "DATE_FORMAT_MONTH = ''M''"
definition DATE_FORMAT_DAY :: string where "DATE_FORMAT_DAY = ''D''"
definition DATE_FORMAT_MONTH_DAY :: string where "DATE_FORMAT_MONTH_DAY = ''M-D''"
definition DATE_FORMAT_YEAR_MONTH_DAY :: string where
  "DATE_FORMAT_YEAR_MONTH_DAY = ''YYYY-M-D''"

section \<open>output.ts\<close>

datatype FilesystemStructure =
  Structure_none | Structure_year | Structure_month | Structure_day

text \<open>The string a structure is at run time.\<close>

fun structureName :: "FilesystemStructure \<Rightarrow> string" where
  "structureName Structure_none = ''none''"
| "structureName Structure_year = ''year''"
| "structureName Structure_month = ''month''"
| "structureName Structure_day = ''day''"

text \<open>
  The fields of \<open>Config\<close> that output.ts reads; \<open>None\<close> is \<open>undefined\<close>. The functions
  take any record with these fields.
\<close>

record Config =
  outputDirectory :: "string option"
  outputStructure :: "FilesystemStructure option"
  outputFilenameOptions :: "string list option"

fun formatDate :: "Utility \<Rightarrow> jsdate \<Rightarrow> FilesystemStructure option \<Rightarrow> error + string" where
  "formatDate dates date None =
     Inl (Error ''Unable to Create Output: Output structure is not set'')"
| "formatDate dates date (Some Structure_none) =
     Inr (dates_format dates date DATE_FORMAT_YEAR_MONTH_DAY)"
| "formatDate dates date (Some Structure_year) =
     Inr (dates_format dates date DATE_FORMAT_MONTH_DAY)"
| "formatDate dates date (Some Structure_month) =
     Inr (dates_format dates date DATE_FORMAT_DAY)"
| "formatDate dates date (Some Structure_day) =
     Inl (Error (''Cannot use date in filename when output structure is ''
                 @ [CHR 0x22] @ ''day'' @ [CHR 0x22]))"

text \<open>
  \<open>sanitizeFilenameString\<close> is four regular-expression replacements. Each is modelled
  by the scan the regular expression performs from left to right.
\<close>

definition isFilenameChar :: "char \<Rightarrow> bool" where
  \<comment> \<open>the class \<^verbatim>\<open>[a-zA-Z0-9\-_.]\<close>\<close>
  "isFilenameChar c =
     (charBetween CHR ''a'' CHR ''z'' c \<or> charBetween CHR ''A'' CHR ''Z'' c
      \<or> charBetween CHR ''0'' CHR ''9'' c
      \<or> c = CHR ''-'' \<or> c = CHR ''_'' \<or> c = CHR ''.'')"

definition isUnderscore :: "char \<Rightarrow> bool" where
  "isUnderscore c = (c = CHR ''_'')"

definition replaceUnsafe :: "string \<Rightarrow> string" where
  \<comment> \<open>\<^verbatim>\<open>.replace(/[^a-zA-Z0-9\-_.]/g, '_')\<close>\<close>
  "replaceUnsafe str = map (\<lambda>c. if isFilenameChar c then c else CHR ''_'') str"

function replaceUnderscoreRuns :: "string \<Rightarrow> string" where
  \<comment> \<open>\<^verbatim>\<open>.replace(/_+/g, '_')\<close>: a match takes the whole run of underscores\<close>
  "replaceUnderscoreRuns [] = []"
| "replaceUnderscoreRuns (c # cs) =
     (if isUnderscore c then CHR ''_'' # replaceUnderscoreRuns (dropWhile isUnderscore cs)
      else c # replaceUnderscoreRuns cs)"
  by pat_completeness auto
termination
  by (relation "measure length") (auto simp: length_dropWhile_le less_Suc_eq_le)

definition removeEdgeUnderscores :: "string \<Rightarrow> string" where
  \<comment> \<open>\<^verbatim>\<open>.replace(/^_+|_+$/g, '')\<close>\<close>
  "removeEdgeUnderscores str = removeEdgeRuns isUnderscore str"

definition replaceEmpty :: "string \<Rightarrow> string" where
  \<comment> \<open>\<^verbatim>\<open>.replace(/^$/, 'untitled')\<close>\<close>
  "replaceEmpty str = (if str = [] then ''untitled'' else str)"

definition sanitizeFilenameString :: "string \<Rightarrow> string" where
  "sanitizeFilenameString str =
     replaceEmpty (removeEdgeUnderscores (replaceUnderscoreRuns (replaceUnsafe str)))"

text \<open>
  \<open>constructFilename\<close> pushes its fragments on the array \<open>parts\<close> one after the
  other; \<open>formatDate\<close> may throw before anything else is pushed. \<open>subject\<close> is
  \<open>options.subject\<close>, \<open>None\<close> when it is absent.
\<close>

definition listIncludes :: "string list option \<Rightarrow> string \<Rightarrow> bool" where
  \<comment> \<open>\<^verbatim>\<open>list?.includes(x)\<close>\<close>
  "listIncludes list x = (case list of None \<Rightarrow> False | Some xs \<Rightarrow> x \<in> set xs)"

definition pushDate ::
  "Utility \<Rightarrow> 'a Config_scheme \<Rightarrow> jsdate \<Rightarrow> string list \<Rightarrow> error + string list" where
  "pushDate dates config date parts =
     (if listIncludes (outputFilenameOptions config) ''date''
      then (case formatDate dates date (outputStructure config) of
              Inl e \<Rightarrow> Inl e
            | Inr dateStr \<Rightarrow> Inr (parts @ [dateStr]))
      else Inr parts)"

definition pushTime ::
  "Utility \<Rightarrow> 'a Config_scheme \<Rightarrow> jsdate \<Rightarrow> string list \<Rightarrow> string list" where
  "pushTime dates config date parts =
     (if listIncludes (outputFilenameOptions config) ''time''
      then parts @ [dates_format dates date ''HHmm'']
      else parts)"

definition pushSubject ::
  "'a Config_scheme \<Rightarrow> string option \<Rightarrow> string list \<Rightarrow> string list" where
  "pushSubject config subject parts =
     (if listIncludes (outputFilenameOptions config) ''subject''
      then parts @ [sanitizeFilenameString (case subject of None \<Rightarrow> [] | Some s \<Rightarrow> s)]
      else parts)"

definition constructFilename ::
  "Utility \<Rightarrow> 'a Config_scheme \<Rightarrow> jsdate \<Rightarrow> string \<Rightarrow> string \<Rightarrow> string option \<Rightarrow> error + string" where
  "constructFilename dates config date ftype hash subject =
     (case pushDate dates config date [] of
        Inl e \<Rightarrow> Inl e
      | Inr parts \<Rightarrow>
          Inr (join ''-''
                 (pushSubject config subject (pushTime dates config date parts @ [hash] @ [ftype]))))"

text \<open>
  \<open>constructOutputDirectory\<close> returns the path it asks the storage utility to create.
\<close>

definition isSet :: "string option \<Rightarrow> bool" where
  \<comment> \<open>a string that is truthy: neither \<open>undefined\<close> nor empty\<close>
  "isSet str = (case str of None \<Rightarrow> False | Some v \<Rightarrow> v \<noteq> [])"

definition constructOutputDirectory ::
  "Utility \<Rightarrow> 'a Config_scheme \<Rightarrow> jsdate \<Rightarrow> error + string" where
  "constructOutputDirectory dates config creationTime =
     (case (if isSet (outputDirectory config) then outputDirectory config else None) of
        None \<Rightarrow> Inl (Error ''Unable to Create Output: Output directory is not set'')
      | Some dir \<Rightarrow>
          (case outputStructure config of
             None \<Rightarrow> Inl (Error ''Unable to Create Output: Output structure is not set'')
           | Some structure \<Rightarrow>
               (case dates_date dates creationTime of
                  Inl e \<Rightarrow> Inl e
                | Inr date \<Rightarrow>
                    (let year = dates_format dates date DATE_FORMAT_YEAR;
                         month = dates_format dates date DATE_FORMAT_MONTH;
                         day = dates_format dates date DATE_FORMAT_DAY
                     in Inr (case structure of
                               Structure_year \<Rightarrow> path_join [dir, year]
                             | Structure_month \<Rightarrow> path_join [dir, year, month]
                             | Structure_day \<Rightarrow> path_join [dir, year, month, day]
                             | Structure_none \<Rightarrow> dir)))))"

section \<open>structured.ts: decoding a date\<close>

definition isLetterOrNumber :: "char \<Rightarrow> bool" where
  \<comment> \<open>the classes \<^verbatim>\<open>\p{L}\<close> and \<^verbatim>\<open>\p{N}\<close>, for the code points below 256\<close>
  "isLetterOrNumber c =
     (let n = charCode c
      in (48 \<le> n \<and> n \<le> 57) \<or> (65 \<le> n \<and> n \<le> 90) \<or> (97 \<le> n \<and> n \<le> 122)
         \<or> n = 170 \<or> n = 178 \<or> n = 179 \<or> n = 181 \<or> n = 185 \<or> n = 186
         \<or> (188 \<le> n \<and> n \<le> 190) \<or> (192 \<le> n \<and> n \<le> 214)
         \<or> (216 \<le> n \<and> n \<le> 246) \<or> (248 \<le> n \<and> n \<le> 255))"

definition isDashOrUnderscore :: "char \<Rightarrow> bool" where
  \<comment> \<open>the class \<^verbatim>\<open>[-_]\<close>\<close>
  "isDashOrUnderscore c = (c = CHR ''-'' \<or> c = CHR ''_'')"

text \<open>
  \<open>part parts i\<close> is \<^verbatim>\<open>parts[i]\<close>, \<open>None\<close> for \<open>undefined\<close>;
  \<open>parseInt(undefined)\<close> is \<open>NaN\<close>.
\<close>

definition part :: "string list \<Rightarrow> nat \<Rightarrow> string option" where
  "part parts i = (if i < length parts then Some (parts ! i) else None)"

definition parseIntOf :: "string option \<Rightarrow> int option" where
  "parseIntOf p = (case p of None \<Rightarrow> None | Some str \<Rightarrow> parseInt str)"

text \<open>
  The body of \<^verbatim>\<open>if (shouldParseTime) { ... }\<close>: \<open>refused\<close> is the test on the length
  of the time part. \<open>None\<close> is \<^verbatim>\<open>return null\<close>, also for the exception that
  reading the length of \<open>undefined\<close> throws and the \<^verbatim>\<open>catch\<close> turns into \<open>null\<close>.
\<close>

definition hoursMinutes ::
  "(nat \<Rightarrow> bool) \<Rightarrow> string option \<Rightarrow> (int option \<times> int option) option" where
  "hoursMinutes refused timePart =
     (case timePart of
        None \<Rightarrow> None
      | Some tp \<Rightarrow>
          if refused (length tp) then None
          else Some (parseInt (take 2 tp), parseInt (take 2 (drop 2 tp))))"

text \<open>
  The \<^verbatim>\<open>switch (format)\<close> of \<open>parseDateFromString\<close>: the numbers \<open>y\<close>, \<open>mo\<close>,
  \<open>d\<close>, \<open>h\<close>, \<open>mi\<close> it leaves (\<open>None\<close> for \<open>NaN\<close>), or \<open>None\<close> where it returns
  \<open>null\<close>.
\<close>

type_synonym components = "int option \<times> int option \<times> int option \<times> int option \<times> int option"

definition withTime ::
  "bool \<Rightarrow> (nat \<Rightarrow> bool) \<Rightarrow> string option \<Rightarrow> int option \<Rightarrow> int option \<Rightarrow> int option
     \<Rightarrow> components option" where
  "withTime shouldParseTime refused timePart y mo d =
     (if shouldParseTime
      then (case hoursMinutes refused timePart of
              None \<Rightarrow> None
            | Some (h, mi) \<Rightarrow> Some (y, mo, d, h, mi))
      else Some (y, mo, d, Some 0, Some 0))"

definition monthIndex :: "int option \<Rightarrow> int option" where
  \<comment> \<open>\<^verbatim>\<open>parseInt(...) - 1\<close>\<close>
  "monthIndex m = map_option (\<lambda>v. v - 1) m"

definition parseComponents ::
  "string \<Rightarrow> bool \<Rightarrow> string list \<Rightarrow> int option \<Rightarrow> int option \<Rightarrow> int option
     \<Rightarrow> components option" where
  "parseComponents format shouldParseTime parts year month day =
     (let y = Some (case year of None \<Rightarrow> 0 | Some v \<Rightarrow> v);
          mo = Some (case month of None \<Rightarrow> 0 | Some v \<Rightarrow> v);
          d = Some (case day of None \<Rightarrow> 1 | Some v \<Rightarrow> v);
          n = length parts
      in if format = ''YYYY-M-D-HHmm'' then
           (if n < 4 \<and> shouldParseTime then None
            else if n < 3 \<and> \<not> shouldParseTime then None
            else withTime shouldParseTime (\<lambda>len. len < 4) (part parts 3)
                   (parseIntOf (part parts 0))
                   (monthIndex (parseIntOf (part parts 1)))
                   (parseIntOf (part parts 2)))
         else if format = ''M-D-HHmm'' then
           (if year = None then None
            else if n < 3 \<and> shouldParseTime then None
            else if n < 2 \<and> \<not> shouldParseTime then None
            else withTime shouldParseTime (\<lambda>len. len < 4) (part parts 2)
                   y
                   (monthIndex (parseIntOf (part parts 0)))
                   (parseIntOf (part parts 1)))
         else if format = ''D-HHmm'' then
           (if year = None \<or> month = None then None
            else if n < 2 \<and> shouldParseTime then None
            else if n < 1 \<and> \<not> shouldParseTime then None
            else withTime shouldParseTime (\<lambda>len. len < 4) (part parts 1)
                   y mo (parseIntOf (part parts 0)))
         else if format = ''HHmm'' then
           (if year = None \<or> month = None \<or> day = None then None
            else withTime shouldParseTime (\<lambda>len. len \<noteq> 4) (part parts 0) y mo d)
         else None)"

text \<open>
  From \<^verbatim>\<open>// Validate parsed numbers\<close> on. A thrown error is caught by the function
  itself and becomes \<open>null\<close>.
\<close>

definition checkedDate :: "components \<Rightarrow> jsdate option" where
  "checkedDate c =
     (case c of
        (Some y, Some mo, Some d, hN, miN) \<Rightarrow>
          (let h = (case hN of None \<Rightarrow> 0 | Some v \<Rightarrow> v);
               mi = (case miN of None \<Rightarrow> 0 | Some v \<Rightarrow> v)
           in if mo < 0 \<or> mo > 11 \<or> d < 1 \<or> d > 31 \<or> h < 0 \<or> h > 23 \<or> mi < 0 \<or> mi > 59
              then None
              else (let date = Date_UTC y mo d h mi
                    in if getUTCFullYear date \<noteq> Some y \<or> getUTCMonth date \<noteq> Some mo
                          \<or> getUTCDate date \<noteq> Some d \<or> getUTCHours date \<noteq> Some h
                          \<or> getUTCMinutes date \<noteq> Some mi
                       then None
                       else Some date))
      | _ \<Rightarrow> None)"

definition parseDateFromString ::
  "string \<Rightarrow> string \<Rightarrow> bool \<Rightarrow> int option \<Rightarrow> int option \<Rightarrow> int option \<Rightarrow> jsdate option" where
  "parseDateFromString dateStr format shouldParseTime year month day =
     (if dateStr = [] then None
      else (let cleanedDateStr = removeEdgeRuns (\<lambda>c. \<not> isLetterOrNumber c) dateStr;
                parts = splitOn isDashOrUnderscore cleanedDateStr
            in case parseComponents format shouldParseTime parts year month day of
                 None \<Rightarrow> None
               | Some c \<Rightarrow> checkedDate c))"

definition unknownStructure :: "string \<Rightarrow> error" where
  "unknownStructure structure =
     Error (''Unknown input structure '' @ [CHR 0x22] @ structure @ [CHR 0x22] @ '' specified.'')"

definition parseDateFromFilePath ::
  "string \<Rightarrow> string \<Rightarrow> string \<Rightarrow> bool \<Rightarrow> error + jsdate option" where
  "parseDateFromFilePath relativePath filename structure shouldParseTime =
     (let pathParts = splitOn isSep relativePath;
          filenameWithoutExt = path_basename filename (path_extname filename);
          year = parseIntOf (part pathParts 0);
          monthDir = parseIntOf (part pathParts 1);
          day = parseIntOf (part pathParts 2)
      in if structure = ''none'' then
           Inr (parseDateFromString filenameWithoutExt ''YYYY-M-D-HHmm'' shouldParseTime
                  None None None)
         else if structure = ''year'' then
           Inr (if length pathParts \<ge> 1 \<and> year \<noteq> None
                then parseDateFromString filenameWithoutExt ''M-D-HHmm'' shouldParseTime
                       year None None
                else None)
         else if structure = ''month'' then
           Inr (if length pathParts \<ge> 2 \<and> year \<noteq> None
                     \<and> (case monthDir of None \<Rightarrow> False | Some m \<Rightarrow> m \<ge> 1 \<and> m \<le> 12)
                then parseDateFromString filenameWithoutExt ''D-HHmm'' shouldParseTime
                       year (monthIndex monthDir) None
                else None)
         else if structure = ''day'' then
           Inr (if length pathParts \<ge> 3 \<and> year \<noteq> None
                     \<and> (case monthDir of None \<Rightarrow> False | Some m \<Rightarrow> m \<ge> 1 \<and> m \<le> 12)
                     \<and> (case day of None \<Rightarrow> False | Some d \<Rightarrow> d \<ge> 1 \<and> d \<le> 31)
                then parseDateFromString filenameWithoutExt ''HHmm'' shouldParseTime
                       year (monthIndex monthDir) day
                else None)
         else Inl (unknownStructure structure))"

section \<open>structured.ts: the date range\<close>

text \<open>
  A \<open>DateRange\<close>; a bound is \<open>None\<close> where the program finds it falsy. Dates compare
  by their time values, and every comparison with \<open>NaN\<close> is false.
\<close>

record DateRange =
  range_start :: "jsdate option"
  range_end :: "jsdate option"

fun dateLess :: "jsdate \<Rightarrow> jsdate \<Rightarrow> bool" where
  "dateLess (TimeValue a) (TimeValue b) = (a < b)"
| "dateLess _ _ = False"

fun dateGreaterEq :: "jsdate \<Rightarrow> jsdate \<Rightarrow> bool" where
  "dateGreaterEq (TimeValue a) (TimeValue b) = (a \<ge> b)"
| "dateGreaterEq _ _ = False"

fun validBound :: "jsdate option \<Rightarrow> bool" where
  \<comment> \<open>\<^verbatim>\<open>bound && !isNaN(bound.getTime())\<close>\<close>
  "validBound (Some (TimeValue t)) = True"
| "validBound _ = False"

definition isDateInRange :: "jsdate \<Rightarrow> DateRange option \<Rightarrow> bool" where
  "isDateInRange date dateRange =
     (case dateRange of
        None \<Rightarrow> True
      | Some r \<Rightarrow>
          if range_start r = None \<and> range_end r = None then True
          else (let isStartDateValid = validBound (range_start r);
                    isEndDateValid = validBound (range_end r)
                in if isStartDateValid
                      \<and> (case range_start r of Some startDate \<Rightarrow> dateLess date startDate
                          | None \<Rightarrow> False)
                   then False
                   else if isEndDateValid
                      \<and> (case range_end r of Some endDate \<Rightarrow> dateGreaterEq date endDate
                          | None \<Rightarrow> False)
                   then False
                   else True))"

text \<open>
  \<open>calculateDateRange\<close>: \<open>startDate\<close> and \<open>endDate\<close> are \<open>None\<close> when the caller
  gives no bound. \<open>dates\<close> is \<open>Dates.create({ timezone })\<close>.
\<close>

definition parseBound :: "Utility \<Rightarrow> jsdate option \<Rightarrow> jsdate \<Rightarrow> error + jsdate" where
  \<comment> \<open>\<^verbatim>\<open>if (bound) { range.x = dateUtil.parse(bound, DATE_FORMAT_YEAR_MONTH_DAY) }\<close>\<close>
  "parseBound dates bound current =
     (case bound of
        None \<Rightarrow> Inr current
      | Some b \<Rightarrow> dates_parse dates b DATE_FORMAT_YEAR_MONTH_DAY)"

definition calculateDateRange ::
  "Utility \<Rightarrow> jsdate option \<Rightarrow> jsdate option \<Rightarrow> error + DateRange" where
  "calculateDateRange dates startDate endDate =
     (let now = dates_now dates;
          start0 = dates_subDays dates now 31;
          end0 = now
      in if startDate \<noteq> None \<or> endDate \<noteq> None then
           (case parseBound dates endDate end0 of
              Inl e \<Rightarrow> Inl e
            | Inr end1 \<Rightarrow>
                (case parseBound dates startDate start0 of
                   Inl e \<Rightarrow> Inl e
                 | Inr start1 \<Rightarrow>
                     if dates_isBefore dates end1 start1
                     then Inl (ArgumentError ''--start''
                            (''Start date (''
                             @ dates_format dates start1 DATE_FORMAT_YEAR_MONTH_DAY
                             @ '') cannot be after end date (''
                             @ dates_format dates end1 DATE_FORMAT_YEAR_MONTH_DAY @ '').''))
                     else Inr \<lparr> range_start = Some start1, range_end = Some end1 \<rparr>))
         else Inr \<lparr> range_start = Some start0, range_end = Some end0 \<rparr>)"

section \<open>util/storage.ts: forEachFileIn\<close>

text \<open>
  An asynchronous callback is a function on the state of its caller: it returns the
  state it leaves and the exception it throws, if any. It runs when it is called; its
  promise settles later, when the scheduler of the host resumes the worker that awaits
  it. \<open>files\<close> is what \<open>glob\<close> returns for the pattern in the directory, \<open>limit\<close> is
  \<open>options.limit\<close> and \<open>concurrency\<close> is \<open>options.concurrency\<close>, \<open>None\<close> for
  \<open>undefined\<close>.
\<close>

type_synonym 's callback = "string \<Rightarrow> 's \<Rightarrow> error option \<times> 's"

definition slice0 :: "'a list \<Rightarrow> int \<Rightarrow> 'a list" where
  \<comment> \<open>\<^verbatim>\<open>xs.slice(0, n)\<close>: a negative \<open>n\<close> counts from the end\<close>
  "slice0 xs n = (if n < 0 then take (nat (int (length xs) + n)) xs else take (nat n) xs)"

text \<open>
  The workers share \<open>fileQueue\<close> and \<open>filesProcessed\<close>. The state of the walk is the
  queue, the counter, the results of the callbacks that have been called and are
  awaited (one for each worker that is suspended at its \<^verbatim>\<open>await\<close>), and the state of
  the callback.

  \<open>loopHead\<close> is a worker at the head of its loop: if the queue is empty or the
  counter has reached the limit the worker ends; else it takes the first file off the
  queue, ends if the name is empty, and calls the callback otherwise, whose result it
  then awaits.
\<close>

type_synonym 's walk = "string list \<times> int \<times> error option list \<times> 's"

definition loopHead :: "string \<Rightarrow> 's callback \<Rightarrow> int \<Rightarrow> 's walk \<Rightarrow> 's walk" where
  "loopHead directory callback limit w =
     (case w of (fileQueue, filesProcessed, pending, s) \<Rightarrow>
        (case fileQueue of
           [] \<Rightarrow> w
         | file # rest \<Rightarrow>
             if \<not> filesProcessed < limit then w
             else if file = [] then (rest, filesProcessed, pending, s)
             else (case callback (path_join [directory, file]) s of
                     (result, s') \<Rightarrow> (rest, filesProcessed, pending @ [result], s'))))"

definition walkSize :: "'s walk \<Rightarrow> nat" where
  "walkSize w = (case w of (fileQueue, filesProcessed, pending, s) \<Rightarrow>
                   length fileQueue + length pending)"

text \<open>
  \<open>run\<close> resumes the suspended workers one after the other until none is left. Which
  worker is resumed next depends on when the promises settle: \<open>sched\<close> chooses, at
  step \<open>k\<close>, among the workers that are suspended. A worker whose callback threw
  ends, and the first such exception is the one \<^verbatim>\<open>Promise.all\<close> rejects with; the
  other workers go on. A worker whose callback returned counts the file, ends if the
  limit is reached, and is at the head of its loop again otherwise.
\<close>

function run ::
  "(nat \<Rightarrow> nat) \<Rightarrow> nat \<Rightarrow> string \<Rightarrow> 's callback \<Rightarrow> int \<Rightarrow> 's walk \<Rightarrow> error option
     \<Rightarrow> error option \<times> 's" where
  "run sched k directory callback limit w failure =
     (case w of (fileQueue, filesProcessed, pending, s) \<Rightarrow>
        if pending = [] then (failure, s)
        else (let i = sched k mod length pending;
                  others = take i pending @ drop (Suc i) pending
              in case pending ! i of
                   Some err \<Rightarrow>
                     run sched (Suc k) directory callback limit
                       (fileQueue, filesProcessed, others, s)
                       (if failure = None then Some err else failure)
                 | None \<Rightarrow>
                     if filesProcessed + 1 \<ge> limit
                     then run sched (Suc k) directory callback limit
                            (fileQueue, filesProcessed + 1, others, s) failure
                     else run sched (Suc k) directory callback limit
                            (loopHead directory callback limit
                               (fileQueue, filesProcessed + 1, others, s))
                            failure))"
  by pat_completeness auto
termination
proof -
  have shorter: "length (take (n mod length xs) xs @ drop (Suc (n mod length xs)) xs) < length xs"
    if "xs \<noteq> []" for xs :: "'b list" and n :: nat
  proof -
    have "n mod length xs < length xs"
      using that by simp
    then show ?thesis
      by simp
  qed
  have head: "walkSize (loopHead directory callback limit (q, fp, p, s)) \<le> length q + length p"
    for directory and callback :: "'c callback" and limit q fp p s
    by (auto simp: walkSize_def loopHead_def split: list.splits prod.splits)
  show ?thesis
  proof (relation "measure (\<lambda>(sched, k, directory, callback, limit, w, failure). walkSize w)",
      goal_cases)
    case 1
    show ?case by simp
  next
    case (2 sched k directory callback limit w failure x y xa ya xb yb xc xd)
    then show ?case
      using shorter [of xb "sched k"] by (auto simp: walkSize_def)
  next
    case (3 sched k directory callback limit w failure x y xa ya xb yb xc xd)
    then show ?case
      using shorter [of xb "sched k"] head [of directory callback limit x "xa + 1" xd yb]
      by (auto simp: walkSize_def)
  next
    case (4 sched k directory callback limit w failure x y xa ya xb yb xc xd x2)
    then show ?case
      using shorter [of xb "sched k"] by (auto simp: walkSize_def)
  qed
qed

declare run.simps [simp del]

text \<open>
  \<open>forEachFileIn\<close>: the queue is the list of files cut to the limit;
  \<^verbatim>\<open>Array.from({ length: concurrency }, () => worker())\<close> starts the workers one after
  the other, each running to its first \<^verbatim>\<open>await\<close>, and \<^verbatim>\<open>Promise.all\<close> awaits them.
  An exception is thrown again with the pattern, the directory and its message.
\<close>

definition forEachFileIn ::
  "string list \<Rightarrow> string \<Rightarrow> 's callback \<Rightarrow> string \<Rightarrow> int option \<Rightarrow> int option
     \<Rightarrow> (nat \<Rightarrow> nat) \<Rightarrow> 's \<Rightarrow> error option \<times> 's" where
  "forEachFileIn files directory callback pattern optLimit optConcurrency sched s =
     (let concurrency = (case optConcurrency of
                           None \<Rightarrow> 1
                         | Some c \<Rightarrow> if c = 0 then 1 else c);
          limit = (case optLimit of
                     None \<Rightarrow> int (length files)
                   | Some l \<Rightarrow> if l = 0 then int (length files) else l);
          fileQueue = slice0 files limit;
          started = ((loopHead directory callback limit) ^^ (nat concurrency))
                      (fileQueue, 0, [], s)
      in case run sched 0 directory callback limit started None of
           (Some err, s') \<Rightarrow>
             (Some (Error (''Failed to glob pattern '' @ pattern @ '' in '' @ directory
                           @ '': '' @ errorMessage err)), s')
         | (None, s') \<Rightarrow> (None, s'))"

section \<open>structured.ts: the walk\<close>

text \<open>
  The callback of the host takes the file and its date. \<open>processStructuredFile\<close>
  catches whatever the decoder or the callback throws and answers \<open>false\<close> then.
  \<open>cwd\<close> is the working directory of the process, which \<open>path.relative\<close> reads.
\<close>

type_synonym 's fileCallback = "string \<Rightarrow> jsdate \<Rightarrow> 's \<Rightarrow> error option \<times> 's"

definition processStructuredFile ::
  "string \<Rightarrow> string \<Rightarrow> string \<Rightarrow> string \<Rightarrow> bool \<Rightarrow> 's fileCallback \<Rightarrow> string \<Rightarrow> DateRange
     \<Rightarrow> 's \<Rightarrow> bool \<times> 's" where
  "processStructuredFile cwd filePath inputDirectory structure shouldParseTime callback pattern
       dateRange s =
     (if filePath = inputDirectory \<or> (path_extname filePath = [] \<and> endsWith pattern ''*.*'')
      then (False, s)
      else (let relativePath = path_relative cwd inputDirectory filePath;
                pathParts = splitOn isSep relativePath;
                filename = last pathParts
            in if filename = [] then (False, s)
               else (case parseDateFromFilePath relativePath filename structure shouldParseTime of
                       Inl err \<Rightarrow> (False, s)
                     | Inr None \<Rightarrow> (False, s)
                     | Inr (Some parsedDate) \<Rightarrow>
                         if isDateInRange parsedDate (Some dateRange)
                         then (case callback filePath parsedDate s of
                                 (Some err, s') \<Rightarrow> (False, s')
                               | (None, s') \<Rightarrow> (True, s'))
                         else (False, s))))"

text \<open>
  \<open>process\<close>: \<open>dates\<close> is the utility of the time zone and \<open>glob\<close> the enumerator of
  the storage utility. The state of the walk is \<open>fileCount\<close> and the state of the
  host's callback. The result is the exception thrown or the count returned.
\<close>

definition countingCallback ::
  "string \<Rightarrow> string \<Rightarrow> string \<Rightarrow> bool \<Rightarrow> 's fileCallback \<Rightarrow> string \<Rightarrow> DateRange
     \<Rightarrow> (nat \<times> 's) callback" where
  "countingCallback cwd inputDirectory structure shouldParseTime callback filePattern dateRange =
     (\<lambda>filePath (fileCount, s).
        case processStructuredFile cwd filePath inputDirectory structure shouldParseTime callback
               filePattern dateRange s of
          (processed, s') \<Rightarrow> (None, (if processed then fileCount + 1 else fileCount, s')))"

definition process ::
  "Utility \<Rightarrow> (string \<Rightarrow> string \<Rightarrow> string list) \<Rightarrow> string \<Rightarrow> (nat \<Rightarrow> nat)
     \<Rightarrow> FilesystemStructure option \<Rightarrow> string list option \<Rightarrow> string list
     \<Rightarrow> jsdate option \<Rightarrow> jsdate option \<Rightarrow> int option \<Rightarrow> string list \<Rightarrow> string
     \<Rightarrow> 's fileCallback \<Rightarrow> int option \<Rightarrow> 's \<Rightarrow> (error + nat) \<times> 's" where
  "process dates glob cwd sched inputStructure inputFilenameOptions extensions startDate endDate
       limit features inputDirectory callback concurrency s =
     (case calculateDateRange dates startDate endDate of
        Inl err \<Rightarrow> (Inl err, s)
      | Inr dateRange \<Rightarrow>
          (let structure = (case inputStructure of
                              None \<Rightarrow> ''none''
                            | Some st \<Rightarrow> structureName st);
               shouldParseTime = listIncludes inputFilenameOptions ''time''
           in case getFilePattern features extensions of
                Inl err \<Rightarrow> (Inl err, s)
              | Inr filePattern \<Rightarrow>
                  (case forEachFileIn (glob filePattern inputDirectory) inputDirectory
                          (countingCallback cwd inputDirectory structure shouldParseTime callback
                             filePattern dateRange)
                          filePattern limit concurrency sched (0, s) of
                     (Some err, (fileCount, s')) \<Rightarrow> (Inl err, s')
                   | (None, (fileCount, s')) \<Rightarrow> (Inr fileCount, s'))))"

section \<open>Observing the callbacks\<close>

text \<open>
  What a walk did is read from a callback that keeps a record beside its own state.
  \<open>recording callback\<close> behaves as \<open>callback\<close> and notes every path it is called
  with; \<open>tracing callback\<close> behaves as \<open>callback\<close> and notes every file and date it
  is called with, and whether that call returned (\<open>True\<close>) or threw (\<open>False\<close>).
\<close>

definition recording :: "'s callback \<Rightarrow> ('s \<times> string list) callback" where
  "recording callback =
     (\<lambda>filePath (s, seen).
        case callback filePath s of (err, s') \<Rightarrow> (err, (s', seen @ [filePath])))"

definition tracing ::
  "'s fileCallback \<Rightarrow> ('s \<times> (string \<times> jsdate \<times> bool) list) fileCallback" where
  "tracing callback =
     (\<lambda>filePath date (s, trace).
        case callback filePath date s of
          (err, s') \<Rightarrow> (err, (s', trace @ [(filePath, date, err = None)])))"

definition returned :: "(string \<times> jsdate \<times> bool) list \<Rightarrow> nat" where
  \<comment> \<open>the number of calls of a trace that returned\<close>
  "returned trace = length (filter (\<lambda>(filePath, date, ok). ok) trace)"

text \<open>
  An example of a host: an enumerator that yields a file with no date in its path and a
  file of 15 January 2022, 08:30; a callback that returns and one that throws; and a
  callback for \<open>forEachFileIn\<close> that returns.
\<close>

definition sampleGlob :: "string \<Rightarrow> string \<Rightarrow> string list" where
  "sampleGlob pattern directory = [''notes/readme.txt'', ''2022/01/15/0830-test.txt'']"

definition returningCallback :: "unit fileCallback" where
  "returningCallback filePath date s = (None, s)"

definition throwingCallback :: "unit fileCallback" where
  "throwingCallback filePath date s = (Some (Error ''callback failed''), s)"

definition acceptingCallback :: "unit callback" where
  "acceptingCallback filePath s = (None, s)"

section \<open>Calendar dates\<close>

text \<open>
  What the specification calls a calendar-valid date: a month from 1 to 12, a day that
  the month has in that year, an hour from 0 to 23 and a minute from 0 to 59.
\<close>

definition DaysInMonth :: "int \<Rightarrow> int \<Rightarrow> int" where
  "DaysInMonth y m =
     (if m = 2 then (if DaysInYear y = 366 then 29 else 28)
      else if m = 4 \<or> m = 6 \<or> m = 9 \<or> m = 11 then 30
      else 31)"

definition calendarValid :: "int \<Rightarrow> int \<Rightarrow> int \<Rightarrow> int \<Rightarrow> int \<Rightarrow> bool" where
  "calendarValid y m d h mi =
     (1 \<le> m \<and> m \<le> 12 \<and> 1 \<le> d \<and> d \<le> DaysInMonth y m
      \<and> 0 \<le> h \<and> h \<le> 23 \<and> 0 \<le> mi \<and> mi \<le> 59)"

text \<open>
  The time value of the date with these fields in \<open>UTC\<close>: what \<open>Date.UTC\<close> computes
  but for its reading of a year from 0 to 99 as a year of the twentieth century.
\<close>

definition utcTime :: "int \<Rightarrow> int \<Rightarrow> int \<Rightarrow> int \<Rightarrow> int \<Rightarrow> int" where
  "utcTime y m d h mi = MakeDate (MakeDay y (m - 1) d) (MakeTime h mi 0 0)"

section \<open>What the decoder reads\<close>

text \<open>
  The strings \<open>parseDateFromFilePath\<close> reads its numbers from. The stem is the base
  name without its extension, cleaned and split on hyphens and underscores; the path is
  split on the separator. For \<open>none\<close> the stem holds year, month, day and time; for
  \<open>year\<close> component 0 of the path is the year and the stem holds month, day and
  time; for \<open>month\<close> components 0 and 1 of the path are year and month and the stem
  holds day and time; for \<open>day\<close> components 0, 1 and 2 of the path are year, month
  and day and the stem holds the time. A string is \<open>None\<close> when the path or the stem
  has too few pieces for it.
\<close>

definition stemOf :: "string \<Rightarrow> string" where
  "stemOf filename = path_basename filename (path_extname filename)"

definition stemParts :: "string \<Rightarrow> string list" where
  "stemParts filename =
     splitOn isDashOrUnderscore (removeEdgeRuns (\<lambda>c. \<not> isLetterOrNumber c) (stemOf filename))"











section \<open>The tokens of a path, as the specification words them\<close>







section \<open>validate.ts\<close>

text \<open>
  \<open>validateOutputFilenameOptions\<close>; \<open>validOptions\<close> is
  \<^verbatim>\<open>options.allowed?.outputFilenameOptions || ALLOWED_OUTPUT_FILENAME_OPTIONS\<close>.
\<close>

definition filenameOptionsError :: "string \<Rightarrow> error" where
  "filenameOptionsError msg = ArgumentError ''--output-filename-options'' msg"

definition validateOutputFilenameOptions ::
  "string list \<Rightarrow> string list option \<Rightarrow> FilesystemStructure option \<Rightarrow> error + unit" where
  "validateOutputFilenameOptions validOptions filenameOptions structure =
     (case filenameOptions of
        None \<Rightarrow> Inr ()
      | Some [] \<Rightarrow> Inr ()
      | Some (first # others) \<Rightarrow>
          (let opts = first # others;
               invalidOptions = filter (\<lambda>opt. opt \<notin> set validOptions) opts
           in if CHR '','' \<in> set first then
                Inl (filenameOptionsError (''Filename options should be space-separated, ''
                  @ ''not comma-separated. Example: --output-filename-options date time subject''))
              else if length opts = 1 \<and> length (splitOn (\<lambda>c. c = CHR '' '') first) > 1 then
                Inl (filenameOptionsError (''Filename options should not be quoted. Use: ''
                  @ ''--output-filename-options date time subject instead of ''
                  @ ''--output-filename-options '' @ [CHR 0x22] @ ''date time subject''
                  @ [CHR 0x22]))
              else if length invalidOptions > 0 then
                Inl (filenameOptionsError (''Invalid filename options: ''
                  @ join '', '' invalidOptions @ ''. Valid options are: ''
                  @ join '', '' validOptions))
              else if ''date'' \<in> set opts \<and> structure = Some Structure_day then
                Inl (filenameOptionsError (''Cannot use date in filename when output structure is ''
                  @ [CHR 0x22] @ ''day'' @ [CHR 0x22]))
              else Inr ()))"

text \<open>
  The rest of \<open>validate.ts\<close>. A \<open>Config\<close> has more fields than output.ts reads:
  \<open>InputConfig\<close> adds the ones \<open>validate\<close> reads, so that a record with all the fields
  is a \<open>Config\<close> as well. \<open>Options\<close> holds the features of the host and what it
  allows, \<open>None\<close> where \<open>options.allowed\<close> or its member is \<open>undefined\<close>. The names of
  the fields are prefixed where the name of the source is the name of a parameter of the
  functions above.

  constants.ts is not among the sources: the tables of allowed values it exports are the
  record \<open>Constants\<close>, a parameter of \<open>validate\<close>. The storage utility answers for the
  file system: \<open>isDirectoryWritable\<close> is a parameter as well.
\<close>

record InputConfig = Config +
  config_timezone :: string
  config_inputDirectory :: "string option"
  config_limit :: "int option"
  config_extensions :: "string list option"
  config_inputStructure :: "FilesystemStructure option"
  config_inputFilenameOptions :: "string list option"

record Options =
  options_features :: "string list"
  allowed_outputStructures :: "FilesystemStructure list option"
  allowed_outputFilenameOptions :: "string list option"
  allowed_extensions :: "string list option"
  allowed_inputStructures :: "FilesystemStructure list option"
  allowed_inputFilenameOptions :: "string list option"

record Constants =
  ALLOWED_EXTENSIONS :: "string list"
  ALLOWED_INPUT_FILENAME_OPTIONS :: "string list"
  ALLOWED_INPUT_STRUCTURES :: "FilesystemStructure list"
  ALLOWED_OUTPUT_FILENAME_OPTIONS :: "string list"
  ALLOWED_OUTPUT_STRUCTURES :: "FilesystemStructure list"

definition allowedOr :: "'a list option \<Rightarrow> 'a list \<Rightarrow> 'a list" where
  \<comment> \<open>\<^verbatim>\<open>options.allowed?.x || ALLOWED_X\<close>: an array is truthy, also when it is empty\<close>
  "allowedOr allowed constant = (case allowed of None \<Rightarrow> constant | Some xs \<Rightarrow> xs)"

definition validateInputDirectory :: "string \<Rightarrow> error + unit" where
  \<comment> \<open>\<^verbatim>\<open>if (!storage.isDirectoryReadable(inputDirectory))\<close> tests a promise that is not
      awaited: a promise is truthy and the branch that throws is never taken\<close>
  "validateInputDirectory inputDirectory = Inr ()"

definition validateOutputDirectory :: "(string \<Rightarrow> bool) \<Rightarrow> string \<Rightarrow> error + unit" where
  "validateOutputDirectory isDirectoryWritable directory =
     (if isDirectoryWritable directory then Inr ()
      else Inl (Error (''Output directory does not exist: '' @ directory)))"

definition validateStructure ::
  "string \<Rightarrow> string \<Rightarrow> FilesystemStructure list \<Rightarrow> FilesystemStructure option \<Rightarrow> error + unit"
  where
  \<comment> \<open>\<open>validateOutputStructure\<close> and \<open>validateInputStructure\<close>, which differ in the flag
      and in one word of the message\<close>
  "validateStructure flag word validOptions structure =
     (case structure of
        None \<Rightarrow> Inr ()
      | Some st \<Rightarrow>
          if st \<in> set validOptions then Inr ()
          else Inl (ArgumentError flag
                 (''Invalid '' @ word @ '' structure: '' @ structureName st
                  @ ''. Valid options are: '' @ join '', '' (map structureName validOptions))))"

definition validateOutputStructure ::
  "FilesystemStructure list \<Rightarrow> FilesystemStructure option \<Rightarrow> error + unit" where
  "validateOutputStructure validOptions structure =
     validateStructure ''--output-structure'' ''output'' validOptions structure"

definition validateInputStructure ::
  "FilesystemStructure list \<Rightarrow> FilesystemStructure option \<Rightarrow> error + unit" where
  "validateInputStructure validOptions structure =
     validateStructure ''--input-structure'' ''input'' validOptions structure"

definition validateInputFilenameOptions ::
  "string list \<Rightarrow> string list option \<Rightarrow> FilesystemStructure option \<Rightarrow> error + unit" where
  "validateInputFilenameOptions validOptions filenameOptions structure =
     (case filenameOptions of
        None \<Rightarrow> Inr ()
      | Some [] \<Rightarrow> Inr ()
      | Some (first # others) \<Rightarrow>
          (let opts = first # others;
               invalidOptions = filter (\<lambda>opt. opt \<notin> set validOptions) opts;
               err = ArgumentError ''--input-filename-options''
           in if CHR '','' \<in> set first then
                Inl (err (''Filename options should be space-separated, ''
                  @ ''not comma-separated. Example: --input-filename-options date time subject''))
              else if length opts = 1 \<and> length (splitOn (\<lambda>c. c = CHR '' '') first) > 1 then
                Inl (err (''Filename options should not be quoted. Use: ''
                  @ ''--input-filename-options date time subject instead of ''
                  @ ''--input-filename-options '' @ [CHR 0x22] @ ''date time subject''
                  @ [CHR 0x22]))
              else if length invalidOptions > 0 then
                Inl (err (''Invalid filename options: ''
                  @ join '', '' invalidOptions @ ''. Valid options are: ''
                  @ join '', '' validOptions))
              else if ''date'' \<in> set opts \<and> structure = Some Structure_day then
                Inl (err (''Cannot use date in filename when input structure is ''
                  @ [CHR 0x22] @ ''day'' @ [CHR 0x22]))
              else Inr ()))"

definition validateTimezone :: "string \<Rightarrow> error + unit" where
  "validateTimezone tz =
     (if tz \<in> set validTimezones then Inr ()
      else Inl (ArgumentError ''--timezone''
             (''Invalid timezone: '' @ tz @ ''. Valid options are: ''
              @ join '', '' validTimezones)))"

definition validateExtensions :: "string list \<Rightarrow> string list option \<Rightarrow> error + unit" where
  "validateExtensions validOptions exts =
     (case exts of
        None \<Rightarrow> Inr ()
      | Some es \<Rightarrow>
          (let invalidOptions = filter (\<lambda>ext. ext \<notin> set validOptions) es
           in if length invalidOptions > 0 then
                Inl (ArgumentError ''--extensions''
                  (''Invalid extensions: '' @ join '', '' invalidOptions
                   @ ''. Valid options are: '' @ join '', '' validOptions))
              else Inr ()))"

definition validateLimit :: "int option \<Rightarrow> error + unit" where
  \<comment> \<open>\<^verbatim>\<open>if (config.limit) { if (config.limit < 1) throw ... }\<close>: 0 is falsy\<close>
  "validateLimit l =
     (case l of
        None \<Rightarrow> Inr ()
      | Some n \<Rightarrow>
          if n \<noteq> 0 \<and> n < 1 then Inl (ArgumentError ''--limit'' ''Limit must be greater than 0'')
          else Inr ())"

text \<open>
  \<open>validate\<close> runs its checks one after the other and stops at the first that throws;
  a check is run only when its feature is among \<open>options.features\<close>.
\<close>

definition andThen :: "error + unit \<Rightarrow> error + unit \<Rightarrow> error + unit" where
  "andThen first rest = (case first of Inl e \<Rightarrow> Inl e | Inr u \<Rightarrow> rest)"

definition whenFeature :: "Options \<Rightarrow> string \<Rightarrow> error + unit \<Rightarrow> error + unit" where
  "whenFeature options feature check =
     (if feature \<in> set (options_features options) then check else Inr ())"

definition validate ::
  "Constants \<Rightarrow> (string \<Rightarrow> bool) \<Rightarrow> 'a InputConfig_scheme \<Rightarrow> Options \<Rightarrow> error + unit" where
  "validate constants isDirectoryWritable config options =
     andThen (validateTimezone (config_timezone config))
    (andThen (whenFeature options ''input''
                (case config_inputDirectory config of
                   None \<Rightarrow> Inr ()
                 | Some dir \<Rightarrow> if dir = [] then Inr () else validateInputDirectory dir))
    (andThen (whenFeature options ''input'' (validateLimit (config_limit config)))
    (andThen (whenFeature options ''output''
                (case outputDirectory config of
                   None \<Rightarrow> Inr ()
                 | Some dir \<Rightarrow>
                     if dir = [] then Inr ()
                     else validateOutputDirectory isDirectoryWritable dir))
    (andThen (whenFeature options ''structured-output''
                (andThen
                   (validateOutputStructure
                      (allowedOr (allowed_outputStructures options)
                         (ALLOWED_OUTPUT_STRUCTURES constants))
                      (outputStructure config))
                   (validateOutputFilenameOptions
                      (allowedOr (allowed_outputFilenameOptions options)
                         (ALLOWED_OUTPUT_FILENAME_OPTIONS constants))
                      (outputFilenameOptions config) (outputStructure config))))
    (andThen (whenFeature options ''extensions''
                (validateExtensions
                   (allowedOr (allowed_extensions options) (ALLOWED_EXTENSIONS constants))
                   (config_extensions config)))
             (whenFeature options ''structured-input''
                (andThen
                   (validateInputStructure
                      (allowedOr (allowed_inputStructures options)
                         (ALLOWED_INPUT_STRUCTURES constants))
                      (config_inputStructure config))
                   (validateInputFilenameOptions
                      (allowedOr (allowed_inputFilenameOptions options)
                         (ALLOWED_INPUT_FILENAME_OPTIONS constants))
                      (config_inputFilenameOptions config) (config_inputStructure config)))))))))"

text \<open>
  An example of a host: tables of allowed values, a file system in which every
  directory is writable, options with the given features and nothing of their own
  allowed, and a configuration that asks for the structure \<open>day\<close> and the filename
  options \<open>date\<close> and \<open>time\<close>.
\<close>

definition sampleConstants :: Constants where
  "sampleConstants =
     \<lparr> ALLOWED_EXTENSIONS = [''md'', ''txt''],
       ALLOWED_INPUT_FILENAME_OPTIONS = [''date'', ''time'', ''subject''],
       ALLOWED_INPUT_STRUCTURES =
         [Structure_none, Structure_year, Structure_month, Structure_day],
       ALLOWED_OUTPUT_FILENAME_OPTIONS = [''date'', ''time'', ''subject''],
       ALLOWED_OUTPUT_STRUCTURES =
         [Structure_none, Structure_year, Structure_month, Structure_day] \<rparr>"

definition everyDirectoryWritable :: "string \<Rightarrow> bool" where
  "everyDirectoryWritable directory = True"

definition hostOptions :: "string list \<Rightarrow> Options" where
  "hostOptions features =
     \<lparr> options_features = features, allowed_outputStructures = None,
       allowed_outputFilenameOptions = None, allowed_extensions = None,
       allowed_inputStructures = None, allowed_inputFilenameOptions = None \<rparr>"

definition dayConfig :: InputConfig where
  "dayConfig =
     \<lparr> outputDirectory = Some ''/out'', outputStructure = Some Structure_day,
       outputFilenameOptions = Some [''time'', ''date''], config_timezone = ''UTC'',
       config_inputDirectory = None, config_limit = None, config_extensions = None,
       config_inputStructure = None, config_inputFilenameOptions = None \<rparr>"

section \<open>The sanitiser as the specification words it\<close>

text \<open>
  Section 4.4: replace every character outside \<open>[A-Za-z0-9._-]\<close> with an underscore,
  collapse runs of underscores to one, trim leading and trailing underscores, and
  substitute \<open>untitled\<close> if the result is empty.
\<close>

definition spec_allowed :: "char set" where
  "spec_allowed = set (''ABCDEFGHIJKLMNOPQRSTUVWXYZ'' @ ''abcdefghijklmnopqrstuvwxyz''
                       @ ''0123456789'' @ ''._-'')"

fun spec_collapse :: "string \<Rightarrow> string" where
  "spec_collapse (a # b # cs) =
     (if a = CHR ''_'' \<and> b = CHR ''_'' then spec_collapse (b # cs)
      else a # spec_collapse (b # cs))"
| "spec_collapse cs = cs"

definition spec_trim :: "string \<Rightarrow> string" where
  "spec_trim s = rev (dropWhile (\<lambda>c. c = CHR ''_'') (rev (dropWhile (\<lambda>c. c = CHR ''_'') s)))"

definition spec_sanitize :: "string \<Rightarrow> string" where
  "spec_sanitize s =
     (let t = spec_trim (spec_collapse (map (\<lambda>c. if c \<in> spec_allowed then c else CHR ''_'') s))
      in if t = [] then ''untitled'' else t)"

section \<open>Properties of the calendar\<close>

text \<open>
  The year of a day is the largest year whose first day is not after it, and the fields
  of the time value that \<open>MakeDay\<close> and \<open>MakeTime\<close> build from a date of the
  calendar are the fields of that date.
\<close>

lemma div_bounds: "0 < k \<Longrightarrow> k * (a div k) \<le> a \<and> a < k * (a div k) + (k::int)"
proof -
  assume k: "0 < k"
  have "a = k * (a div k) + a mod k" by simp
  moreover have "0 \<le> a mod k" "a mod k < k" using k by simp_all
  ultimately show ?thesis by linarith
qed

lemma div_succ:
  fixes a k :: int
  assumes k: "0 < k"
  shows "(a + 1) div k = a div k + (if (a + 1) mod k = 0 then 1 else 0)"
proof -
  define q where "q = a div k"
  define r where "r = a mod k"
  have a: "a = k * q + r"
    by (simp add: q_def r_def)
  have r: "0 \<le> r" "r < k"
    using k by (simp_all add: r_def)
  show ?thesis
  proof (cases "r = k - 1")
    case True
    then have e: "a + 1 = k * (q + 1) + 0"
      using a by (simp add: algebra_simps)
    have "(a + 1) div k = q + 1"
      using e k by (intro int_div_pos_eq [where r = 0]) auto
    moreover have "(a + 1) mod k = 0"
      using e k by (intro int_mod_pos_eq [where q = "q + 1"]) auto
    ultimately show ?thesis
      by (simp add: q_def)
  next
    case False
    then have e: "a + 1 = k * q + (r + 1)" and b: "0 \<le> r + 1" "r + 1 < k"
      using a r by auto
    have "(a + 1) div k = q"
      using e b by (intro int_div_pos_eq [where r = "r + 1"]) auto
    moreover have "(a + 1) mod k = r + 1"
      using e b by (intro int_mod_pos_eq [where q = q]) auto
    ultimately show ?thesis
      using r by (simp add: q_def)
  qed
qed

lemma mod_shift: "(y - k * c) mod k = y mod k" for y :: int
proof -
  have "(y - k * c) mod k = (y + k * (- c)) mod k"
    by simp
  also have "\<dots> = y mod k"
    by (rule mod_mult_self2)
  finally show ?thesis .
qed

lemma div4_step: "(y - 1968) div 4 = (y - 1969) div 4 + (if y mod 4 = 0 then 1 else 0)" for y :: int
  using div_succ [of 4 "y - 1969"] mod_shift [of y 4 492] by simp

lemma div100_step: "(y - 1900) div 100 = (y - 1901) div 100 + (if y mod 100 = 0 then 1 else 0)" for y :: int
  using div_succ [of 100 "y - 1901"] mod_shift [of y 100 19] by simp

lemma div400_step: "(y - 1600) div 400 = (y - 1601) div 400 + (if y mod 400 = 0 then 1 else 0)" for y :: int
  using div_succ [of 400 "y - 1601"] mod_shift [of y 400 4] by simp

lemma mod_100_4: "y mod 100 = 0 \<Longrightarrow> y mod 4 = 0" for y :: int
proof -
  assume "y mod 100 = 0"
  then have "100 dvd y" by (simp add: mod_eq_0_iff_dvd)
  moreover have "(4::int) dvd 100" by simp
  ultimately have "4 dvd y" using dvd_trans by blast
  then show ?thesis by (simp add: mod_eq_0_iff_dvd)
qed

lemma mod_400_100: "y mod 400 = 0 \<Longrightarrow> y mod 100 = 0" for y :: int
proof -
  assume "y mod 400 = 0"
  then have "400 dvd y" by (simp add: mod_eq_0_iff_dvd)
  moreover have "(100::int) dvd 400" by simp
  ultimately have "100 dvd y" using dvd_trans by blast
  then show ?thesis by (simp add: mod_eq_0_iff_dvd)
qed

lemma DayFromYear_step: "DayFromYear (y + 1) = DayFromYear y + DaysInYear y"
proof -
  have "DayFromYear (y + 1) =
      365 * (y - 1969) + (y - 1968) div 4 - (y - 1900) div 100 + (y - 1600) div 400"
    by (simp add: DayFromYear_def)
  then show ?thesis
    using mod_100_4 [of y] mod_400_100 [of y]
    by (auto simp: DayFromYear_def DaysInYear_def div4_step div100_step div400_step)
qed

lemma DaysInYear_bounds: "365 \<le> DaysInYear y \<and> DaysInYear y \<le> 366"
  by (simp add: DaysInYear_def)

lemma DayFromYear_less: "y < y' \<Longrightarrow> DayFromYear y + 365 \<le> DayFromYear y'"
proof (induction "nat (y' - y - 1)" arbitrary: y')
  case 0
  then have "y' = y + 1" by simp
  then show ?case
    using DaysInYear_bounds [of y] by (simp add: DayFromYear_step)
next
  case (Suc n)
  then have "n = nat ((y' - 1) - y - 1)" "y < y' - 1" by auto
  from Suc.hyps(1) [OF this] have "DayFromYear y + 365 \<le> DayFromYear (y' - 1)" .
  moreover have "DayFromYear y' = DayFromYear (y' - 1) + DaysInYear (y' - 1)"
    using DayFromYear_step [of "y' - 1"] by simp
  ultimately show ?case
    using DaysInYear_bounds [of "y' - 1"] by simp
qed

lemma YearFromDay_estimate:
  fixes d :: int
  defines "y \<equiv> 1970 + (400 * d) div 146097"
  shows "DayFromYear (y - 1) \<le> d \<and> d < DayFromYear (y + 2)"
proof -
  define q where "q = (400 * d) div 146097"
  have q: "146097 * q \<le> 400 * d" "400 * d < 146097 * q + 146097"
    using div_bounds [of 146097 "400 * d"] by (simp_all add: q_def)
  have y: "y = 1970 + q"
    by (simp add: y_def q_def)
  define a4 where "a4 = q div 4"
  define a100 where "a100 = (q + 68) div 100"
  define a400 where "a400 = (q + 368) div 400"
  have a: "4 * a4 \<le> q" "q + 68 < 100 * a100 + 100" "400 * a400 \<le> q + 368"
    using div_bounds [of 4 q] div_bounds [of 100 "q + 68"] div_bounds [of 400 "q + 368"]
    by (simp_all add: a4_def a100_def a400_def)
  have lo: "DayFromYear (y - 1) = 365 * (q - 1) + a4 - a100 + a400"
    by (simp add: DayFromYear_def y a4_def a100_def a400_def add.commute)
  define b4 where "b4 = (q + 3) div 4"
  define b100 where "b100 = (q + 71) div 100"
  define b400 where "b400 = (q + 371) div 400"
  have b: "q + 3 < 4 * b4 + 4" "100 * b100 \<le> q + 71" "q + 371 < 400 * b400 + 400"
    using div_bounds [of 4 "q + 3"] div_bounds [of 100 "q + 71"] div_bounds [of 400 "q + 371"]
    by (simp_all add: b4_def b100_def b400_def)
  have hi: "DayFromYear (y + 2) = 365 * (q + 2) + b4 - b100 + b400"
    by (simp add: DayFromYear_def y b4_def b100_def b400_def add.commute)
  have "400 * a4 \<le> 100 * q" "4 * q - 124 \<le> 400 * a100"
    using a by simp_all
  then have "400 * (365 * (q - 1) + a4 - a100 + a400) \<le> 146097 * q"
    using a(3) by simp
  then have "400 * (365 * (q - 1) + a4 - a100 + a400) \<le> 400 * d"
    using q(1) by (rule order_trans)
  then have below: "365 * (q - 1) + a4 - a100 + a400 \<le> d"
    by simp
  have "100 * q \<le> 400 * b4" "400 * b100 \<le> 4 * q + 284" "q - 28 \<le> 400 * b400"
    using b by simp_all
  then have "146097 * q + 146097 \<le> 400 * (365 * (q + 2) + b4 - b100 + b400)"
    by simp
  with q(2) have "400 * d < 400 * (365 * (q + 2) + b4 - b100 + b400)"
    by (rule less_le_trans)
  then have above: "d < 365 * (q + 2) + b4 - b100 + b400"
    by simp
  show ?thesis
    using below above by (simp add: lo hi)
qed

lemma YearFromDay_bounds:
  "DayFromYear (YearFromDay d) \<le> d \<and> d < DayFromYear (YearFromDay d + 1)"
proof -
  define y where "y = 1970 + (400 * d) div 146097"
  have e: "DayFromYear (y - 1) \<le> d" "d < DayFromYear (y + 2)"
    using YearFromDay_estimate [of d] by (simp_all add: y_def)
  have s: "DayFromYear (y - 1 + 1) = DayFromYear y" "y + 1 + 1 = y + 2"
    by simp_all
  show ?thesis
    using e s
    by (auto simp: YearFromDay_def Let_def y_def [symmetric] add.commute)
qed

lemma YearFromDay_unique:
  assumes "DayFromYear y \<le> d" "d < DayFromYear (y + 1)"
  shows "YearFromDay d = y"
proof (rule ccontr)
  assume ne: "YearFromDay d \<noteq> y"
  note b = YearFromDay_bounds [of d]
  show False
  proof (cases "YearFromDay d < y")
    case True
    then have "YearFromDay d + 1 \<le> y" by simp
    then have "DayFromYear (YearFromDay d + 1) \<le> DayFromYear y"
      using DayFromYear_less [of "YearFromDay d + 1" y] by (cases "YearFromDay d + 1 = y") auto
    then show False using b assms by linarith
  next
    case False
    with ne have "y + 1 \<le> YearFromDay d" by simp
    then have "DayFromYear (y + 1) \<le> DayFromYear (YearFromDay d)"
      using DayFromYear_less [of "y + 1" "YearFromDay d"] by (cases "y + 1 = YearFromDay d") auto
    then show False using b assms by linarith
  qed
qed

lemma Day_MakeDate:
  assumes "0 \<le> tm" "tm < msPerDay"
  shows "Day (MakeDate day tm) = day" "TimeWithinDay (MakeDate day tm) = tm"
proof -
  have e: "MakeDate day tm = msPerDay * day + tm"
    by (simp add: MakeDate_def)
  show "Day (MakeDate day tm) = day"
    unfolding Day_def using e assms by (intro int_div_pos_eq [where r = tm]) auto
  show "TimeWithinDay (MakeDate day tm) = tm"
    unfolding TimeWithinDay_def using e assms by (intro int_mod_pos_eq [where q = day]) auto
qed

lemma MakeTime_range:
  assumes "0 \<le> h" "h \<le> 23" "0 \<le> mi" "mi \<le> 59"
  shows "0 \<le> MakeTime h mi 0 0 \<and> MakeTime h mi 0 0 < msPerDay"
  using assms by (simp add: MakeTime_def msPerDay_def msPerHour_def msPerMinute_def)

lemma HourFromTime_MakeDate:
  assumes "0 \<le> h" "h \<le> 23" "0 \<le> mi" "mi \<le> 59"
  shows "HourFromTime (MakeDate day (MakeTime h mi 0 0)) = h"
proof -
  have 1: "MakeDate day (MakeTime h mi 0 0) = msPerHour * (24 * day + h) + mi * 60000"
    by (simp add: MakeDate_def MakeTime_def msPerDay_def msPerHour_def msPerMinute_def)
  have 2: "MakeDate day (MakeTime h mi 0 0) div msPerHour = 24 * day + h"
    using 1 assms by (intro int_div_pos_eq [where r = "mi * 60000"]) (auto simp: msPerHour_def)
  have "(24 * day + h) mod 24 = h"
    using assms by (intro int_mod_pos_eq [where q = day]) auto
  then show ?thesis
    by (simp add: HourFromTime_def 2)
qed

lemma MinFromTime_MakeDate:
  assumes "0 \<le> h" "h \<le> 23" "0 \<le> mi" "mi \<le> 59"
  shows "MinFromTime (MakeDate day (MakeTime h mi 0 0)) = mi"
proof -
  have 1: "MakeDate day (MakeTime h mi 0 0) = msPerMinute * (60 * (24 * day + h) + mi) + 0"
    by (simp add: MakeDate_def MakeTime_def msPerDay_def msPerHour_def msPerMinute_def)
  have 2: "MakeDate day (MakeTime h mi 0 0) div msPerMinute = 60 * (24 * day + h) + mi"
    using 1 by (intro int_div_pos_eq [where r = 0]) (auto simp: msPerMinute_def)
  have "(60 * (24 * day + h) + mi) mod 60 = mi"
    using assms by (intro int_mod_pos_eq [where q = "24 * day + h"]) auto
  then show ?thesis
    by (simp add: MinFromTime_def 2)
qed

lemma month_disj:
  fixes mo :: int
  assumes "0 \<le> mo" "mo \<le> 11"
  shows "mo = 0 \<or> mo = 1 \<or> mo = 2 \<or> mo = 3 \<or> mo = 4 \<or> mo = 5 \<or> mo = 6
    \<or> mo = 7 \<or> mo = 8 \<or> mo = 9 \<or> mo = 10 \<or> mo = 11"
proof -
  have "mo \<in> {0..11}" using assms by simp
  also have "{0..11} = set [0..(11::int)]" by simp
  also have "\<dots> = {0,1,2,3,4,5,6,7,8,9,10,11}" by (simp add: upto.simps)
  finally show ?thesis by simp
qed

lemma firstDayOfMonth_values:
  "firstDayOfMonth leap 0 = 0" "firstDayOfMonth leap 1 = 31"
  "firstDayOfMonth leap 2 = 59 + leap" "firstDayOfMonth leap 3 = 90 + leap"
  "firstDayOfMonth leap 4 = 120 + leap" "firstDayOfMonth leap 5 = 151 + leap"
  "firstDayOfMonth leap 6 = 181 + leap" "firstDayOfMonth leap 7 = 212 + leap"
  "firstDayOfMonth leap 8 = 243 + leap" "firstDayOfMonth leap 9 = 273 + leap"
  "firstDayOfMonth leap 10 = 304 + leap" "firstDayOfMonth leap 11 = 334 + leap"
  by (simp_all add: firstDayOfMonth_def)

lemma DaysInMonth_values:
  "DaysInMonth y 1 = 31" "DaysInMonth y 2 = 28 + (if DaysInYear y = 365 then 0 else 1)"
  "DaysInMonth y 3 = 31" "DaysInMonth y 4 = 30" "DaysInMonth y 5 = 31" "DaysInMonth y 6 = 30"
  "DaysInMonth y 7 = 31" "DaysInMonth y 8 = 31" "DaysInMonth y 9 = 30" "DaysInMonth y 10 = 31"
  "DaysInMonth y 11 = 30" "DaysInMonth y 12 = 31"
  by (simp_all add: DaysInMonth_def DaysInYear_def)

lemma MonthFromTime_table:
  assumes "DayWithinYear t = w" "InLeapYear t = leap" "0 \<le> leap" "leap \<le> 1"
    and "firstDayOfMonth leap mo \<le> w" "w < firstDayOfMonth leap mo + len"
    and "(mo = 0 \<and> len = 31) \<or> (mo = 1 \<and> len = 28 + leap) \<or> (mo = 2 \<and> len = 31)
       \<or> (mo = 3 \<and> len = 30) \<or> (mo = 4 \<and> len = 31) \<or> (mo = 5 \<and> len = 30)
       \<or> (mo = 6 \<and> len = 31) \<or> (mo = 7 \<and> len = 31) \<or> (mo = 8 \<and> len = 30)
       \<or> (mo = 9 \<and> len = 31) \<or> (mo = 10 \<and> len = 30) \<or> (mo = 11 \<and> len = 31)"
  shows "MonthFromTime t = mo \<and> DateFromTime t = w - firstDayOfMonth leap mo + 1"
  using assms(7)
proof (elim disjE conjE)
  assume "mo = 0" "len = 31" with assms(1-6) show ?thesis
    by (simp add: MonthFromTime_def DateFromTime_def Let_def firstDayOfMonth_values)
next
  assume "mo = 1" "len = 28 + leap" with assms(1-6) show ?thesis
    by (simp add: MonthFromTime_def DateFromTime_def Let_def firstDayOfMonth_values)
next
  assume "mo = 2" "len = 31" with assms(1-6) show ?thesis
    by (simp add: MonthFromTime_def DateFromTime_def Let_def firstDayOfMonth_values)
next
  assume "mo = 3" "len = 30" with assms(1-6) show ?thesis
    by (simp add: MonthFromTime_def DateFromTime_def Let_def firstDayOfMonth_values)
next
  assume "mo = 4" "len = 31" with assms(1-6) show ?thesis
    by (simp add: MonthFromTime_def DateFromTime_def Let_def firstDayOfMonth_values)
next
  assume "mo = 5" "len = 30" with assms(1-6) show ?thesis
    by (simp add: MonthFromTime_def DateFromTime_def Let_def firstDayOfMonth_values)
next
  assume "mo = 6" "len = 31" with assms(1-6) show ?thesis
    by (simp add: MonthFromTime_def DateFromTime_def Let_def firstDayOfMonth_values)
next
  assume "mo = 7" "len = 31" with assms(1-6) show ?thesis
    by (simp add: MonthFromTime_def DateFromTime_def Let_def firstDayOfMonth_values)
next
  assume "mo = 8" "len = 30" with assms(1-6) show ?thesis
    by (simp add: MonthFromTime_def DateFromTime_def Let_def firstDayOfMonth_values)
next
  assume "mo = 9" "len = 31" with assms(1-6) show ?thesis
    by (simp add: MonthFromTime_def DateFromTime_def Let_def firstDayOfMonth_values)
next
  assume "mo = 10" "len = 30" with assms(1-6) show ?thesis
    by (simp add: MonthFromTime_def DateFromTime_def Let_def firstDayOfMonth_values)
next
  assume "mo = 11" "len = 31" with assms(1-6) show ?thesis
    by (simp add: MonthFromTime_def DateFromTime_def Let_def firstDayOfMonth_values)
qed

lemma month_lengths:
  fixes y mo :: int
  assumes "0 \<le> mo" "mo \<le> 11"
  defines "leap \<equiv> (if DaysInYear y = 365 then 0 else 1)"
  defines "len \<equiv> DaysInMonth y (mo + 1)"
  shows "(mo = 0 \<and> len = 31) \<or> (mo = 1 \<and> len = 28 + leap) \<or> (mo = 2 \<and> len = 31)
       \<or> (mo = 3 \<and> len = 30) \<or> (mo = 4 \<and> len = 31) \<or> (mo = 5 \<and> len = 30)
       \<or> (mo = 6 \<and> len = 31) \<or> (mo = 7 \<and> len = 31) \<or> (mo = 8 \<and> len = 30)
       \<or> (mo = 9 \<and> len = 31) \<or> (mo = 10 \<and> len = 30) \<or> (mo = 11 \<and> len = 31)"
  using month_disj [OF assms(1,2)] unfolding len_def leap_def
  by (elim disjE) (simp_all add: DaysInMonth_values)

lemma month_within_year:
  assumes "0 \<le> leap" "leap \<le> 1" "1 \<le> d" "d \<le> len"
    and "(mo = 0 \<and> len = 31) \<or> (mo = 1 \<and> len = 28 + leap) \<or> (mo = 2 \<and> len = 31)
       \<or> (mo = 3 \<and> len = 30) \<or> (mo = 4 \<and> len = 31) \<or> (mo = 5 \<and> len = 30)
       \<or> (mo = 6 \<and> len = 31) \<or> (mo = 7 \<and> len = 31) \<or> (mo = 8 \<and> len = 30)
       \<or> (mo = 9 \<and> len = 31) \<or> (mo = 10 \<and> len = 30) \<or> (mo = 11 \<and> len = 31)"
  shows "0 \<le> firstDayOfMonth leap mo + d - 1 \<and> firstDayOfMonth leap mo + d - 1 < 365 + leap"
  using assms(5,1-4)
  by (elim disjE conjE) (simp_all add: firstDayOfMonth_values)

lemma MakeDay_fields:
  assumes mo: "0 \<le> mo" "mo \<le> 11" and d: "1 \<le> d" "d \<le> DaysInMonth y (mo + 1)"
    and tm: "0 \<le> tm" "tm < msPerDay"
  defines "t \<equiv> MakeDate (MakeDay y mo d) tm"
  shows "YearFromTime t = y \<and> MonthFromTime t = mo \<and> DateFromTime t = d"
proof -
  define leap :: int where "leap = (if DaysInYear y = 365 then 0 else 1)"
  define w where "w = firstDayOfMonth leap mo + d - 1"
  have leap: "0 \<le> leap" "leap \<le> 1"
    by (simp_all add: leap_def)
  have modiv: "mo div 12 = 0" "mo mod 12 = mo"
    using mo by simp_all
  have day: "Day t = DayFromYear y + w"
    using Day_MakeDate(1) [OF tm] by (simp add: t_def MakeDay_def modiv Let_def w_def leap_def)
  have diy: "DaysInYear y = 365 + leap"
    by (simp add: leap_def DaysInYear_def)
  note lengths = month_lengths [OF mo, of y, folded leap_def]
  have w: "0 \<le> w \<and> w < DaysInYear y"
    unfolding w_def diy by (rule month_within_year [OF leap d lengths])
  have year: "YearFromTime t = y"
    unfolding YearFromTime_def
    using w by (intro YearFromDay_unique) (simp_all add: day DayFromYear_step)
  have dwy: "DayWithinYear t = w"
    by (simp add: DayWithinYear_def day year)
  have il: "InLeapYear t = leap"
    by (simp add: InLeapYear_def year leap_def)
  have "MonthFromTime t = mo \<and> DateFromTime t = w - firstDayOfMonth leap mo + 1"
    using d by (intro MonthFromTime_table [OF dwy il leap _ _ lengths]) (simp_all add: w_def)
  then show ?thesis
    using year by (simp add: w_def)
qed

section \<open>Properties of numbers as strings\<close>

text \<open>
  \<open>parseInt\<close> reads back the number that \<open>String\<close> and \<open>padStart\<close> write.
\<close>

lemma isDigit_digitChar: "n < 10 \<Longrightarrow> isDigit (digitChar n)"
  by (simp add: isDigit_def charBetween_def charCode_def digitChar_def)

lemma digitValue_digitChar: "n < 10 \<Longrightarrow> digitValue (digitChar n) = int n"
  by (simp add: digitValue_def charCode_def digitChar_def)

lemma decimal_digits: "list_all isDigit (decimal n) \<and> decimal n \<noteq> []"
proof (induction n rule: decimal.induct)
  case (1 n)
  show ?case
  proof (cases "n < 10")
    case True
    then show ?thesis
      by (subst (1 2) decimal.simps) (simp add: isDigit_digitChar)
  next
    case False
    with 1 show ?thesis
      by (subst (1 2) decimal.simps) (simp add: isDigit_digitChar)
  qed
qed

lemma digitsValue_snoc: "digitsValue (ds @ [c]) = 10 * digitsValue ds + digitValue c"
  by (simp add: digitsValue_def)

lemma digitsValue_decimal: "digitsValue (decimal n) = int n"
proof (induction n rule: decimal.induct)
  case (1 n)
  show ?case
  proof (cases "n < 10")
    case True
    then show ?thesis
      by (subst decimal.simps) (simp add: digitsValue_def digitValue_digitChar)
  next
    case False
    with 1 have "digitsValue (decimal (n div 10)) = int (n div 10)"
      by simp
    moreover have "10 * int (n div 10) + int (n mod 10) = int n"
      by (simp add: zdiv_int zmod_int)
    ultimately show ?thesis
      using False
      by (subst decimal.simps) (simp add: digitsValue_snoc digitValue_digitChar)
  qed
qed

lemma digitsValue_zeros: "digitsValue (replicate k CHR ''0'' @ ds) = digitsValue ds"
proof -
  have "foldl (\<lambda>acc c. 10 * acc + digitValue c) 0 (replicate k CHR ''0'') = 0"
    by (induction k) (simp_all add: digitValue_def charCode_def)
  then show ?thesis
    by (simp add: digitsValue_def)
qed

lemma isDigit_not_space: "isDigit c \<Longrightarrow> \<not> isWhiteSpace c \<and> c \<noteq> CHR ''-'' \<and> c \<noteq> CHR ''+''"
  by (auto simp: isDigit_def isWhiteSpace_def charBetween_def charCode_def)

lemma parseInt_digits:
  assumes "list_all isDigit ds" "ds \<noteq> []"
  shows "parseInt ds = Some (digitsValue ds)"
proof -
  obtain c cs where ds: "ds = c # cs"
    using assms(2) by (cases ds) auto
  have c: "isDigit c" using assms(1) ds by simp
  have tw: "takeWhile isDigit ds = ds"
    using assms(1) by (simp add: list_all_iff)
  show ?thesis
    using isDigit_not_space [OF c] tw
    by (simp add: parseInt_def parseDigits_def ds Let_def)
qed

lemma parseInt_padded: "parseInt (padStart k CHR ''0'' (decimal n)) = Some (int n)"
proof -
  have z: "isDigit CHR ''0''"
    by (simp add: isDigit_def charBetween_def charCode_def)
  have d: "list_all isDigit (padStart k CHR ''0'' (decimal n))"
    using decimal_digits [of n] z
    by (auto simp: padStart_def list_all_iff)
  have ne: "padStart k CHR ''0'' (decimal n) \<noteq> []"
    using decimal_digits [of n] by (simp add: padStart_def)
  show ?thesis
    by (simp add: parseInt_digits [OF d ne]) (simp add: padStart_def digitsValue_zeros digitsValue_decimal)
qed

lemma parseInt_decimal: "parseInt (decimal n) = Some (int n)"
  using parseInt_padded [of 0 n] by (simp add: padStart_def)

lemma decimal_small: "n < 10 \<Longrightarrow> decimal n = [digitChar n]"
  by (subst decimal.simps) simp

lemma decimal_two: "10 \<le> n \<Longrightarrow> n < 100 \<Longrightarrow> decimal n = [digitChar (n div 10), digitChar (n mod 10)]"
  by (subst decimal.simps) (simp add: decimal_small)

lemma length_decimal: "n < 100 \<Longrightarrow> length (decimal n) \<le> 2"
  by (cases "n < 10") (simp_all add: decimal_small decimal_two)

lemma length_two_digits: "n < 100 \<Longrightarrow> length (padStart 2 CHR ''0'' (decimal n)) = 2"
  using length_decimal [of n] decimal_digits [of n]
  by (cases "decimal n") (auto simp: padStart_def)

section \<open>Properties of the decoder\<close>

text \<open>
  The decoder returns what the fields of the tokens give: for each of the four
  structures, \<open>parseDateFromFilePath\<close> is \<open>checkedDate\<close> of \<open>decodedFields\<close>.
\<close>

lemma splitOn_nonempty [simp]: "splitOn C str \<noteq> []"
  by (induction str) (auto split: list.splits)


lemma distinct_structures:
  "''none'' \<noteq> ''year''" "''none'' \<noteq> ''month''" "''none'' \<noteq> ''day''"
  "''year'' \<noteq> ''month''" "''year'' \<noteq> ''day''" "''month'' \<noteq> ''day''"
  by simp_all

lemma distinct_formats:
  "''YYYY-M-D-HHmm'' \<noteq> ''M-D-HHmm''" "''YYYY-M-D-HHmm'' \<noteq> ''D-HHmm''"
  "''YYYY-M-D-HHmm'' \<noteq> ''HHmm''" "''M-D-HHmm'' \<noteq> ''D-HHmm''"
  "''M-D-HHmm'' \<noteq> ''HHmm''" "''D-HHmm'' \<noteq> ''HHmm''"
  by simp_all

lemma part_None: "part xs i = None \<longleftrightarrow> length xs \<le> i"
  by (simp add: part_def)


lemma checkedDate_month:
  "mo = Some v \<Longrightarrow> v < 0 \<or> v > 11 \<Longrightarrow> checkedDate (y, mo, d, h, mi) = None"
  by (auto simp: checkedDate_def split: option.splits)

lemma checkedDate_day:
  "d = Some v \<Longrightarrow> v < 1 \<or> v > 31 \<Longrightarrow> checkedDate (y, mo, d, h, mi) = None"
  by (auto simp: checkedDate_def split: option.splits)


lemma splitOn_length_pos [simp]: "Suc 0 \<le> length (splitOn C str)"
  using splitOn_nonempty [of C str] by (cases "splitOn C str") auto

lemma parseIntOf_simps [simp]: "parseIntOf None = None" "parseIntOf (Some str) = parseInt str"
  by (simp_all add: parseIntOf_def)

lemma stemParts_nonempty [simp]: "stemParts fn \<noteq> []" "0 < length (stemParts fn)"
  by (simp_all add: stemParts_def)















section \<open>Properties of the output constructor\<close>

lemma isFilenameChar_spec: "isFilenameChar c = (c \<in> spec_allowed)"
  by (cases c) (simp add: isFilenameChar_def spec_allowed_def charBetween_def charCode_def)

lemma replaceUnsafe_spec:
  "replaceUnsafe str = map (\<lambda>c. if c \<in> spec_allowed then c else CHR ''_'') str"
  by (simp add: replaceUnsafe_def isFilenameChar_spec)

lemma replaceUnderscoreRuns_spec: "replaceUnderscoreRuns str = spec_collapse str"
  by (induction str rule: spec_collapse.induct) (auto simp: isUnderscore_def)

lemma removeTrailingRun_rev: "removeTrailingRun C str = rev (dropWhile C (rev str))"
  by (induction str) (auto simp: dropWhile_append list_all_iff)

lemma removeEdgeUnderscores_spec: "removeEdgeUnderscores str = spec_trim str"
proof -
  have "isUnderscore = (\<lambda>c. c = CHR ''_'')"
    by (rule ext) (simp add: isUnderscore_def)
  then show ?thesis
    by (simp add: removeEdgeUnderscores_def removeEdgeRuns_def removeTrailingRun_rev spec_trim_def)
qed

lemma sanitizeFilenameString_eq_spec: "sanitizeFilenameString str = spec_sanitize str"
  by (simp add: sanitizeFilenameString_def spec_sanitize_def replaceEmpty_def
      removeEdgeUnderscores_spec replaceUnderscoreRuns_spec replaceUnsafe_spec Let_def)

lemma dropWhile_all: "list_all C str \<Longrightarrow> dropWhile C str = []"
  by (simp add: list_all_iff dropWhile_eq_Nil_conv)

lemma replaceUnderscoreRuns_all:
  "list_all isUnderscore str \<Longrightarrow> list_all isUnderscore (replaceUnderscoreRuns str)"
  by (cases str) (simp_all add: dropWhile_all isUnderscore_def)

lemma removeEdgeRuns_all: "list_all C str \<Longrightarrow> removeEdgeRuns C str = []"
  by (simp add: removeEdgeRuns_def dropWhile_all)

lemma sanitizeFilenameString_untitled:
  assumes "list_all (\<lambda>c. c \<notin> spec_allowed \<or> c = CHR ''_'') str"
  shows "sanitizeFilenameString str = ''untitled''"
proof -
  have "list_all isUnderscore (replaceUnsafe str)"
    using assms
    by (auto simp: replaceUnsafe_def list_all_iff isUnderscore_def isFilenameChar_spec)
  then have "removeEdgeUnderscores (replaceUnderscoreRuns (replaceUnsafe str)) = []"
    by (simp add: removeEdgeUnderscores_def removeEdgeRuns_all replaceUnderscoreRuns_all)
  then show ?thesis
    by (simp add: sanitizeFilenameString_def replaceEmpty_def)
qed

text \<open>
  Claim C4, as amended. With \<open>rest\<close> the time fragment (if \<open>time\<close> is requested), the
  identifier, the type tag and the sanitised subject (if \<open>subject\<close> is requested), in
  this order: without \<open>date\<close> in the options \<open>constructFilename\<close> returns \<open>rest\<close>
  joined by hyphens; with \<open>date\<close> and a structure \<open>none\<close>, \<open>year\<close> or \<open>month\<close> it
  returns the date fragment of that structure, then \<open>rest\<close>; with \<open>date\<close> and the
  structure \<open>day\<close>, or no structure, it throws and returns nothing. With no option
  it returns the identifier, a hyphen and the type tag.
\<close>

theorem constructFilename_fragments:
  "(let opts = outputFilenameOptions config;
        timeFragment = (if listIncludes opts ''time''
                        then [dates_format dates date ''HHmm''] else []);
        subjectFragment = (if listIncludes opts ''subject''
                           then [sanitizeFilenameString (case subject of None \<Rightarrow> [] | Some s \<Rightarrow> s)]
                           else []);
        rest = timeFragment @ [hash, ftype] @ subjectFragment;
        result = constructFilename dates config date ftype hash subject
    in (\<not> listIncludes opts ''date'' \<longrightarrow> result = Inr (join ''-'' rest))
     \<and> (listIncludes opts ''date'' \<and> outputStructure config = Some Structure_none \<longrightarrow>
          result = Inr (join ''-'' (dates_format dates date ''YYYY-M-D'' # rest)))
     \<and> (listIncludes opts ''date'' \<and> outputStructure config = Some Structure_year \<longrightarrow>
          result = Inr (join ''-'' (dates_format dates date ''M-D'' # rest)))
     \<and> (listIncludes opts ''date'' \<and> outputStructure config = Some Structure_month \<longrightarrow>
          result = Inr (join ''-'' (dates_format dates date ''D'' # rest)))
     \<and> (listIncludes opts ''date''
          \<and> (outputStructure config = Some Structure_day \<or> outputStructure config = None) \<longrightarrow>
          (\<exists>msg. result = Inl (Error msg)))
     \<and> ((opts = None \<or> opts = Some []) \<longrightarrow> result = Inr (hash @ ''-'' @ ftype)))"
  by (auto simp: Let_def constructFilename_def pushDate_def pushTime_def pushSubject_def
      listIncludes_def DATE_FORMAT_YEAR_MONTH_DAY_def DATE_FORMAT_MONTH_DAY_def
      DATE_FORMAT_DAY_def)

theorem constructFilename_fragments_witness:
  "constructFilename (Dates_create_UTC 0)
     \<lparr> outputDirectory = None, outputStructure = Some Structure_none,
       outputFilenameOptions = Some [''date'', ''time'', ''subject''] \<rparr>
     (Date_UTC 2024 5 15 10 30) ''eml'' ''abc123'' (Some ''Re: [Test]!'')
   = Inr ''2024-6-15-1030-abc123-eml-Re_Test''"
proof -
  have d: "dates_format (Dates_create_UTC 0) (Date_UTC 2024 5 15 10 30) ''YYYY-M-D''
           = ''2024-6-15''"
    by code_simp
  have t: "dates_format (Dates_create_UTC 0) (Date_UTC 2024 5 15 10 30) ''HHmm'' = ''1030''"
    by code_simp
  have s: "sanitizeFilenameString ''Re: [Test]!'' = ''Re_Test''"
    by code_simp
  show ?thesis
    using constructFilename_fragments [of
        "\<lparr> outputDirectory = None, outputStructure = Some Structure_none,
           outputFilenameOptions = Some [''date'', ''time'', ''subject''] \<rparr>"
        "Dates_create_UTC 0" "Date_UTC 2024 5 15 10 30" "Some ''Re: [Test]!''"
        "''abc123''" "''eml''"]
    by (simp add: Let_def listIncludes_def d t s)
qed

text \<open>
  The claim as it is worded lets the date fragment out where the structure does not
  permit it and has the function return the other fragments. With the structure
  \<open>day\<close> and the options \<open>date\<close> and \<open>time\<close> the function throws instead.
\<close>

theorem constructFilename_day_date_counterexample:
  "constructFilename (Dates_create_UTC 0)
     \<lparr> outputDirectory = None, outputStructure = Some Structure_day,
       outputFilenameOptions = Some [''date'', ''time''] \<rparr>
     (Date_UTC 2024 5 15 10 30) ''eml'' ''abc123'' None
   = Inl (Error (''Cannot use date in filename when output structure is ''
                 @ [CHR 0x22] @ ''day'' @ [CHR 0x22]))"
  by (simp add: constructFilename_def pushDate_def listIncludes_def)

text \<open>
  Claim C5, as amended. The sanitiser of the code is the sanitiser the specification
  words: every character outside \<open>[A-Za-z0-9._-]\<close> replaced by an underscore, runs
  of underscores collapsed, leading and trailing underscores trimmed, \<open>untitled\<close> for
  an empty result. When \<open>subject\<close> is requested, the last fragment of
  \<open>constructFilename\<close> is the sanitised subject, an absent subject being the empty
  string. A subject whose characters are all outside \<open>[A-Za-z0-9.-]\<close> (so an absent
  or empty one too) gives \<open>untitled\<close>.
\<close>

theorem sanitizeFilenameString_subject:
  "sanitizeFilenameString str = spec_sanitize str
   \<and> (list_all (\<lambda>c. c \<notin> spec_allowed \<or> c = CHR ''_'') str \<longrightarrow>
        sanitizeFilenameString str = ''untitled'')
   \<and> (listIncludes (outputFilenameOptions config) ''subject'' \<longrightarrow>
        constructFilename dates config date ftype hash subject =
          (case pushDate dates config date [] of
             Inl err \<Rightarrow> Inl err
           | Inr parts \<Rightarrow>
               Inr (join ''-'' (pushTime dates config date parts
                      @ [hash, ftype, spec_sanitize (case subject of None \<Rightarrow> [] | Some s \<Rightarrow> s)]))))"
  by (auto simp: sanitizeFilenameString_eq_spec [symmetric] sanitizeFilenameString_untitled
      constructFilename_def pushSubject_def split: sum.splits)

theorem sanitizeFilenameString_subject_witness:
  "sanitizeFilenameString ''Re: [Test]!'' = ''Re_Test''
   \<and> sanitizeFilenameString ''/!@# ?'' = ''untitled''
   \<and> constructFilename (Dates_create_UTC 0)
        \<lparr> outputDirectory = None, outputStructure = Some Structure_none,
          outputFilenameOptions = Some [''subject''] \<rparr>
        (TimeValue 0) ''eml'' ''abc123'' None
      = Inr ''abc123-eml-untitled''"
proof -
  have a: "spec_sanitize ''Re: [Test]!'' = ''Re_Test''"
    by code_simp
  have b: "list_all (\<lambda>c. c \<notin> spec_allowed \<or> c = CHR ''_'') ''/!@# ?''"
    by (simp add: spec_allowed_def)
  have c: "spec_sanitize [] = ''untitled''"
    by code_simp
  note first = sanitizeFilenameString_subject [of "''Re: [Test]!''"
        "\<lparr> outputDirectory = None, outputStructure = Some Structure_none,
           outputFilenameOptions = Some [''subject''] \<rparr>"
        "Dates_create_UTC 0" "TimeValue 0" "''eml''" "''abc123''" None]
  note second = sanitizeFilenameString_subject [of "''/!@# ?''"
        "\<lparr> outputDirectory = None, outputStructure = Some Structure_none,
           outputFilenameOptions = Some [''subject''] \<rparr>"
        "Dates_create_UTC 0" "TimeValue 0" "''eml''" "''abc123''" None]
  have 1: "sanitizeFilenameString ''Re: [Test]!'' = ''Re_Test''"
    using first a by simp
  have 2: "sanitizeFilenameString ''/!@# ?'' = ''untitled''"
    using second b by blast
  have 3: "constructFilename (Dates_create_UTC 0)
        \<lparr> outputDirectory = None, outputStructure = Some Structure_none,
          outputFilenameOptions = Some [''subject''] \<rparr>
        (TimeValue 0) ''eml'' ''abc123'' None
      = Inr ''abc123-eml-untitled''"
    using first by (simp add: c listIncludes_def pushDate_def pushTime_def)
  show ?thesis
    using 1 2 3 by blast
qed

text \<open>
  A subject of punctuation does not always give \<open>untitled\<close>: hyphens and dots are
  kept. The subject below is the one of the repository's own test of the sanitiser.
\<close>

theorem sanitizeFilenameString_hyphens_counterexample:
  "sanitizeFilenameString ''---///!@#'' = ''---''
   \<and> constructFilename (Dates_create_UTC 0)
        \<lparr> outputDirectory = None, outputStructure = Some Structure_none,
          outputFilenameOptions = Some [''subject''] \<rparr>
        (TimeValue 0) ''type'' ''hash'' (Some ''---///!@#'')
      = Inr ''hash-type----''"
  by code_simp

section \<open>Properties of the configuration check\<close>


lemma andThen_simps [simp]: "andThen (Inr u) rest = rest" "andThen (Inl e) rest = Inl e"
  by (simp_all add: andThen_def)






text \<open>
  The claim as it is worded has validation reject the combination. \<open>validate\<close> looks at
  the output filename options only for a host with the feature \<open>structured-output\<close>:
  for a host without it the configuration passes, and the error is the one
  \<open>constructFilename\<close> throws for each file.
\<close>

theorem validate_without_feature_counterexample:
  "validate sampleConstants everyDirectoryWritable dayConfig (hostOptions [''input'', ''output''])
     = Inr ()
   \<and> constructFilename (Dates_create_UTC 0) dayConfig (TimeValue 0) ''note'' ''abc123'' None
     = Inl (Error (''Cannot use date in filename when output structure is ''
                   @ [CHR 0x22] @ ''day'' @ [CHR 0x22]))"
proof
  show "validate sampleConstants everyDirectoryWritable dayConfig
          (hostOptions [''input'', ''output'']) = Inr ()"
    by code_simp
  show "constructFilename (Dates_create_UTC 0) dayConfig (TimeValue 0) ''note'' ''abc123'' None
     = Inl (Error (''Cannot use date in filename when output structure is ''
                   @ [CHR 0x22] @ ''day'' @ [CHR 0x22]))"
    by code_simp
qed

section \<open>Properties of the date range\<close>

text \<open>
  Claim C7, as amended. For a range with two valid bounds, a valid date is in the
  range exactly when it is not before the start and is before the end. So the start
  itself is in the range when the range is not empty (the start is before the end),
  and the end itself never is.
\<close>

theorem isDateInRange_bounds:
  "(let r = Some \<lparr> range_start = Some (TimeValue s), range_end = Some (TimeValue e) \<rparr>
    in isDateInRange (TimeValue t) r = (s \<le> t \<and> t < e)
     \<and> (s < e \<longrightarrow> isDateInRange (TimeValue s) r)
     \<and> \<not> isDateInRange (TimeValue e) r)"
  by (auto simp: isDateInRange_def Let_def)

theorem isDateInRange_bounds_witness:
  "isDateInRange (TimeValue 10)
     (Some \<lparr> range_start = Some (TimeValue 10), range_end = Some (TimeValue 20) \<rparr>)
   \<and> \<not> isDateInRange (TimeValue 20)
     (Some \<lparr> range_start = Some (TimeValue 10), range_end = Some (TimeValue 20) \<rparr>)"
  using isDateInRange_bounds [of 10 20 15]
  by (simp add: Let_def)

text \<open>
  The range whose start and end are the same date has two valid bounds, and the date
  equal to its start is not in it.
\<close>

theorem isDateInRange_empty_range_counterexample:
  "\<not> isDateInRange (TimeValue 0)
        (Some \<lparr> range_start = Some (TimeValue 0), range_end = Some (TimeValue 0) \<rparr>)"
  by (simp add: isDateInRange_def)

text \<open>
  Claim C8. With no explicit bound, \<open>calculateDateRange\<close> returns the range that ends
  at the current time of the utility and starts where the utility subtracts 31 days
  from that end. For the utility of \<open>UTC\<close> the start is 31 times \<open>msPerDay\<close> before
  the end.
\<close>

theorem calculateDateRange_default:
  "calculateDateRange dates None None =
     Inr \<lparr> range_start = Some (dates_subDays dates (dates_now dates) 31),
           range_end = Some (dates_now dates) \<rparr>
   \<and> calculateDateRange (Dates_create_UTC clock) None None =
     Inr \<lparr> range_start = Some (TimeClip (clock - 31 * msPerDay)),
           range_end = Some (TimeValue clock) \<rparr>"
  by (simp add: calculateDateRange_def Dates_create_UTC_def Let_def)

theorem calculateDateRange_default_witness:
  "calculateDateRange (Dates_create_UTC 1672531200000) None None =
     Inr \<lparr> range_start = Some (TimeValue 1669852800000),
           range_end = Some (TimeValue 1672531200000) \<rparr>"
  using calculateDateRange_default [of "Dates_create_UTC 1672531200000" 1672531200000,
      THEN conjunct2]
  by (simp add: TimeClip_def msPerDay_def)

section \<open>Properties of getFilePattern\<close>

lemma validateExtensionFormat_Inr:
  "(validateExtensionFormat exts = Inr ()) = (\<forall>ext\<in>set exts. \<not> startsWith ext ''.'')"
  by (induction exts) auto

lemma validateExtensionFormat_Inl:
  "(\<exists>e. validateExtensionFormat exts = Inl e) = (\<exists>ext\<in>set exts. startsWith ext ''.'')"
  by (induction exts) auto

text \<open>
  Claim C10. An extension list with a dot-prefixed element makes \<open>getFilePattern\<close>
  throw, whatever the feature list is (also without the \<open>extensions\<close> feature); a
  list with no such element makes it return a glob pattern: the broad pattern when the
  feature is off or the list is empty, the single-extension pattern for one extension,
  the brace pattern otherwise.
\<close>

theorem getFilePattern_dot_prefixed:
  "((\<exists>ext\<in>set extensions. startsWith ext ''.'') \<longrightarrow>
      (\<exists>msg. getFilePattern features extensions = Inl (Error msg)))
   \<and> ((\<forall>ext\<in>set extensions. \<not> startsWith ext ''.'') \<longrightarrow>
      getFilePattern features extensions =
        Inr (if ''extensions'' \<in> set features \<and> extensions \<noteq> []
             then (if length extensions = 1 then ''**/*.'' @ hd extensions
                   else ''**/*.{'' @ join '','' extensions @ ''}'')
             else ''**/*.*''))"
proof (intro conjI impI)
  assume "\<exists>ext\<in>set extensions. startsWith ext ''.''"
  then obtain e where e: "validateExtensionFormat extensions = Inl e"
    using validateExtensionFormat_Inl by blast
  have "\<exists>msg. e = Error msg"
    using e by (induction extensions) (auto split: if_splits)
  then show "\<exists>msg. getFilePattern features extensions = Inl (Error msg)"
    using e by (auto simp: getFilePattern_def)
next
  assume "\<forall>ext\<in>set extensions. \<not> startsWith ext ''.''"
  then have v: "validateExtensionFormat extensions = Inr ()"
    using validateExtensionFormat_Inr by blast
  have shape: "(case extensions of [ext] \<Rightarrow> ''**/*.'' @ ext
                 | _ \<Rightarrow> ''**/*.{'' @ join '','' extensions @ ''}'')
        = (if length extensions = 1 then ''**/*.'' @ hd extensions
           else ''**/*.{'' @ join '','' extensions @ ''}'')"
    by (cases extensions; cases "tl extensions") auto
  show "getFilePattern features extensions =
        Inr (if ''extensions'' \<in> set features \<and> extensions \<noteq> []
             then (if length extensions = 1 then ''**/*.'' @ hd extensions
                   else ''**/*.{'' @ join '','' extensions @ ''}'')
             else ''**/*.*'')"
    unfolding getFilePattern_def v shape by simp
qed

theorem getFilePattern_dot_prefixed_witness:
  "(\<exists>msg. getFilePattern [] [''txt'', ''.md''] = Inl (Error msg))
   \<and> getFilePattern [''extensions''] [''txt'', ''md''] = Inr ''**/*.{txt,md}''
   \<and> getFilePattern [''extensions''] [''txt''] = Inr ''**/*.txt''
   \<and> getFilePattern [] [''txt''] = Inr ''**/*.*''"
  using getFilePattern_dot_prefixed [of "[''txt'', ''.md'']" "[]"]
    getFilePattern_dot_prefixed [of "[''txt'', ''md'']" "[''extensions'']"]
    getFilePattern_dot_prefixed [of "[''txt'']" "[''extensions'']"]
    getFilePattern_dot_prefixed [of "[''txt'']" "[]"]
  by (simp add: startsWith_def)

end
